theory Spec2Isabelle
  imports Main "HOL-Library.Word"
begin

unbundle bit_operations_syntax

section \<open>Data model of \<^verbatim>\<open>src/base/platform/platform-fuchsia.cc\<close>\<close>

text \<open>
  Fuchsia runs on 64-bit targets only: \<^verbatim>\<open>size_t\<close>, \<^verbatim>\<open>uintptr_t\<close>, \<^verbatim>\<open>zx_vaddr_t\<close> and
  \<^verbatim>\<open>void*\<close> are 64-bit words (\<^verbatim>\<open>nullptr\<close> is 0); \<^verbatim>\<open>zx_vm_option_t\<close>, \<^verbatim>\<open>zx_handle_t\<close>
  and \<^verbatim>\<open>uint32_t\<close> are 32-bit words. \<^verbatim>\<open>zx_status_t\<close> is only ever compared with
  \<^verbatim>\<open>ZX_OK\<close>, so its 32 bits are kept as a word.
\<close>

type_synonym size_t = "64 word"
type_synonym address = "64 word"
type_synonym zx_vaddr_t = "64 word"
type_synonym zx_vm_option_t = "32 word"
type_synonym zx_handle_t = "32 word"
type_synonym zx_status_t = "32 word"

text \<open>\<^verbatim>\<open>OS::MemoryPermission\<close>, in the order of the \<^verbatim>\<open>switch\<close>.\<close>

datatype MemoryPermission =
    kNoAccess
  | kNoAccessWillJitLater
  | kRead
  | kReadWrite
  | kReadWriteExecute
  | kReadExecute

datatype PlacementMode = kUseHint | kAnywhere | kFixed

text \<open>
  The constants of the Zircon headers (\<^verbatim>\<open>zircon/types.h\<close>, \<^verbatim>\<open>zircon/syscalls/object.h\<close>)
  that the file uses. The headers are not part of the sources, so the constants are a
  parameter of every function that reads one; \<open>zircon\<close> below is the instance with the
  values of the Fuchsia SDK.
\<close>

record zx_consts =
  ZX_OK :: zx_status_t
  ZX_VM_PERM_READ :: zx_vm_option_t
  ZX_VM_PERM_WRITE :: zx_vm_option_t
  ZX_VM_PERM_EXECUTE :: zx_vm_option_t
  ZX_VM_SPECIFIC :: zx_vm_option_t
  ZX_VM_CAN_MAP_SPECIFIC :: zx_vm_option_t
  ZX_VM_CAN_MAP_READ :: zx_vm_option_t
  ZX_VM_CAN_MAP_WRITE :: zx_vm_option_t
  ZX_VM_CAN_MAP_EXECUTE :: zx_vm_option_t
  ZX_VM_ALIGN_BASE :: nat
  ZX_VMO_OP_DECOMMIT :: "32 word"
  ZX_PROP_NAME :: "32 word"
  ZX_INFO_THREAD_STATS :: "32 word"

definition zircon :: zx_consts where
  "zircon =
     \<lparr> ZX_OK = 0,
       ZX_VM_PERM_READ = 1,
       ZX_VM_PERM_WRITE = 2,
       ZX_VM_PERM_EXECUTE = 4,
       ZX_VM_SPECIFIC = 16,
       ZX_VM_CAN_MAP_SPECIFIC = 64,
       ZX_VM_CAN_MAP_READ = 128,
       ZX_VM_CAN_MAP_WRITE = 256,
       ZX_VM_CAN_MAP_EXECUTE = 512,
       ZX_VM_ALIGN_BASE = 24,
       ZX_VMO_OP_DECOMMIT = 2,
       ZX_PROP_NAME = 3,
       ZX_INFO_THREAD_STATS = 11 \<rparr>"

section \<open>The two translators\<close>

text \<open>\<^verbatim>\<open>GetProtectionFromMemoryPermission\<close> (lines 44-59).\<close>

fun GetProtectionFromMemoryPermission :: "zx_consts \<Rightarrow> MemoryPermission \<Rightarrow> zx_vm_option_t" where
  "GetProtectionFromMemoryPermission c kNoAccess = 0"
| "GetProtectionFromMemoryPermission c kNoAccessWillJitLater = 0"
| "GetProtectionFromMemoryPermission c kRead = ZX_VM_PERM_READ c"
| "GetProtectionFromMemoryPermission c kReadWrite = ZX_VM_PERM_READ c OR ZX_VM_PERM_WRITE c"
| "GetProtectionFromMemoryPermission c kReadWriteExecute =
     ZX_VM_PERM_READ c OR ZX_VM_PERM_WRITE c OR ZX_VM_PERM_EXECUTE c"
| "GetProtectionFromMemoryPermission c kReadExecute = ZX_VM_PERM_READ c OR ZX_VM_PERM_EXECUTE c"

text \<open>
  \<^verbatim>\<open>GetAlignmentOptionFromAlignment\<close> (lines 63-80). The loop
  \<^verbatim>\<open>for (int shift = 10; shift <= 32; shift++)\<close> is \<open>alignment_loop\<close>: it returns the value
  \<^verbatim>\<open>alignment_log2\<close> has when the loop is left, the first \<^verbatim>\<open>shift\<close> with
  \<^verbatim>\<open>alignment == (size_t{1} << shift)\<close>, or the initial 0 when no shift matches.
\<close>

function alignment_loop :: "size_t \<Rightarrow> nat \<Rightarrow> zx_vm_option_t" where
  "alignment_loop alignment shift =
     (if shift \<le> 32
      then (if alignment = push_bit shift 1 then of_nat shift
            else alignment_loop alignment (shift + 1))
      else 0)"
  by pat_completeness auto
termination
  by (relation "measure (\<lambda>(alignment, shift). 33 - shift)") auto

declare alignment_loop.simps [simp del]

definition GetAlignmentOptionFromAlignment :: "zx_consts \<Rightarrow> size_t \<Rightarrow> zx_vm_option_t" where
  "GetAlignmentOptionFromAlignment c alignment =
     (let alignment_log2 = alignment_loop alignment 10
      in push_bit (ZX_VM_ALIGN_BASE c) alignment_log2)"


section \<open>The kernel, as the file sees it\<close>

text \<open>
  Every operation on a \<^verbatim>\<open>zx::vmo\<close>, a \<^verbatim>\<open>zx::vmar\<close> or a \<^verbatim>\<open>zx::thread\<close> that the file
  writes is a request to the kernel. A request carries the arguments the source passes,
  in the source's order, with the object the method is called on first. The handles that
  the destructors of the local \<^verbatim>\<open>zx::vmo\<close> and \<^verbatim>\<open>zx::vmar\<close> objects close are not calls
  written in the file and are not recorded.
\<close>

datatype syscall =
    vmo_create size_t "32 word"
  | vmo_set_property zx_handle_t "32 word" string size_t
  | vmo_replace_as_executable zx_handle_t zx_handle_t
  | vmar_map zx_handle_t zx_vm_option_t size_t zx_handle_t "64 word" size_t
  | vmar_allocate zx_handle_t zx_vm_option_t size_t size_t
  | vmar_protect zx_handle_t zx_vm_option_t address size_t
  | vmar_op_range zx_handle_t "32 word" address size_t address size_t
  | thread_get_info zx_handle_t "32 word"

text \<open>
  What a request gives back: the status, and the values written through the out
  parameters (the new handle, the address of the mapping or of the child region, the
  \<^verbatim>\<open>total_runtime\<close> field of \<^verbatim>\<open>zx_info_thread_stats_t\<close>). A request reads the fields it has
  out parameters for and ignores the others.
\<close>

record zx_reply =
  status :: zx_status_t
  out_handle :: zx_handle_t
  out_addr :: zx_vaddr_t
  total_runtime :: "64 word"

text \<open>
  The state the functions thread through is the history of requests and replies. The
  kernel is any function from the history and the next request to a reply, so the
  theorems hold whatever the kernel answers.
\<close>

type_synonym trace = "(syscall \<times> zx_reply) list"
type_synonym kernel = "trace \<Rightarrow> syscall \<Rightarrow> zx_reply"

definition invoke :: "kernel \<Rightarrow> syscall \<Rightarrow> trace \<Rightarrow> zx_reply \<times> trace" where
  "invoke k req t = (let rep = k t req in (rep, t @ [(req, rep)]))"

text \<open>
  \<^verbatim>\<open>AddressSpaceReservation\<close>: the fields \<^verbatim>\<open>base_\<close>, \<^verbatim>\<open>size_\<close> and \<^verbatim>\<open>vmar_\<close> that the file reads
  through \<^verbatim>\<open>base()\<close>, the constructor and \<^verbatim>\<open>vmar_\<close>. A name cannot end in an
  underscore here, so they are \<open>asr_base\<close>, \<open>asr_size\<close> and \<open>asr_vmar\<close>.
\<close>

record AddressSpaceReservation =
  asr_base :: address
  asr_size :: size_t
  asr_vmar :: zx_handle_t

text \<open>
  What the file takes from the rest of the process: the two globals
  \<^verbatim>\<open>g_vmex_resource\<close> and \<^verbatim>\<open>g_root_vmar_base\<close> (written once by \<^verbatim>\<open>OS::Initialize\<close>), the handles
  \<^verbatim>\<open>zx::vmar::root_self()\<close> and \<^verbatim>\<open>zx::thread::self()\<close>, the page sizes of the POSIX layer,
  \<^verbatim>\<open>AddressSpaceReservation::Contains\<close> (declared in \<^verbatim>\<open>platform.h\<close>), and whether the build
  compiles \<^verbatim>\<open>DCHECK\<close>s in (\<open>DEBUG\<close>). None of them is defined in this file, so each is a
  parameter.
\<close>

record process =
  DEBUG :: bool
  g_vmex_resource :: zx_handle_t
  g_root_vmar_base :: address
  root_self :: zx_handle_t
  thread_self :: zx_handle_t
  AllocatePageSize :: size_t
  CommitPageSize :: size_t
  Contains :: "AddressSpaceReservation \<Rightarrow> address \<Rightarrow> size_t \<Rightarrow> bool"

text \<open>
  A failed \<^verbatim>\<open>DCHECK\<close> (debug builds only) or \<^verbatim>\<open>CHECK\<close> (every build) aborts the process.
  \<^verbatim>\<open>DCHECK_EQ(0, x % y)\<close> evaluates \<^verbatim>\<open>x % y\<close> in a debug build: with \<^verbatim>\<open>y == 0\<close> that is
  undefined in C++, which is \<open>DivisionByZero\<close> here.
\<close>

datatype abort = DcheckFailed | CheckFailed | DivisionByZero

definition DCHECK :: "process \<Rightarrow> bool \<Rightarrow> abort option" where
  "DCHECK P cond = (if DEBUG P \<and> \<not> cond then Some DcheckFailed else None)"

definition DCHECK_EQ_0_mod :: "process \<Rightarrow> 64 word \<Rightarrow> 64 word \<Rightarrow> abort option" where
  "DCHECK_EQ_0_mod P x y =
     (if \<not> DEBUG P then None
      else if y = 0 then Some DivisionByZero
      else if x mod y \<noteq> 0 then Some DcheckFailed
      else None)"

text \<open>Checks in sequence: the first one that fails aborts.\<close>

fun checks :: "abort option list \<Rightarrow> abort option" where
  "checks [] = None"
| "checks (Some e # cs) = Some e"
| "checks (None # cs) = checks cs"

section \<open>Allocation and reservation (lines 91-215)\<close>

text \<open>
  The four \<^verbatim>\<open>DCHECK\<close>s that open both \<^verbatim>\<open>AllocateInternal\<close> (lines 94-97) and
  \<^verbatim>\<open>CreateAddressSpaceReservationInternal\<close> (lines 181-184).
\<close>

definition placement_dchecks ::
  "process \<Rightarrow> size_t \<Rightarrow> address \<Rightarrow> PlacementMode \<Rightarrow> size_t \<Rightarrow> size_t \<Rightarrow> abort option" where
  "placement_dchecks P page_size address placement size' alignment =
     checks [DCHECK_EQ_0_mod P size' page_size,
             DCHECK_EQ_0_mod P alignment page_size,
             DCHECK_EQ_0_mod P address alignment,
             DCHECK P (placement = kAnywhere \<or> address \<noteq> 0)]"

definition kVirtualMemoryName :: string where
  "kVirtualMemoryName = ''v8-virtualmem''"

text \<open>
  \<^verbatim>\<open>AllocateInternal\<close> (lines 91-148). The result is the abort, or the pointer returned
  (\<^verbatim>\<open>nullptr\<close> is 0), with the history after the call.
\<close>

definition AllocateInternal ::
  "zx_consts \<Rightarrow> process \<Rightarrow> kernel \<Rightarrow> zx_handle_t \<Rightarrow> address \<Rightarrow> size_t \<Rightarrow> address \<Rightarrow>
   PlacementMode \<Rightarrow> size_t \<Rightarrow> size_t \<Rightarrow> MemoryPermission \<Rightarrow> trace \<Rightarrow> (abort + address) \<times> trace" where
  "AllocateInternal c P k vmar vmar_base page_size address placement size' alignment access t =
     (case placement_dchecks P page_size address placement size' alignment of
        Some e \<Rightarrow> (Inl e, t)
      | None \<Rightarrow>
        (case invoke k (vmo_create size' 0) t of (r1, t1) \<Rightarrow>
         if status r1 \<noteq> ZX_OK c then (Inr 0, t1)
         else
         (case invoke k (vmo_set_property (out_handle r1) (ZX_PROP_NAME c) kVirtualMemoryName
                          (of_nat (length kVirtualMemoryName))) t1 of (r2, t2) \<Rightarrow>
         (case invoke k (vmo_replace_as_executable (out_handle r1) (g_vmex_resource P)) t2 of
            (r3, t3) \<Rightarrow>
          if status r3 \<noteq> ZX_OK c then (Inr 0, t3)
          else
            let vmo = out_handle r3;
                options = GetProtectionFromMemoryPermission c access;
                alignment_option = GetAlignmentOptionFromAlignment c alignment
            in
            if alignment_option = 0 then (Inl CheckFailed, t3)
            else
              let options = options OR alignment_option in
              (case (if placement \<noteq> kAnywhere then DCHECK P (vmar_base \<le> address) else None) of
                 Some e \<Rightarrow> (Inl e, t3)
               | None \<Rightarrow>
                 let vmar_offset = (if placement \<noteq> kAnywhere then address - vmar_base else 0);
                     options = (if placement \<noteq> kAnywhere then options OR ZX_VM_SPECIFIC c
                                else options)
                 in
                 (case invoke k (vmar_map vmar options vmar_offset vmo 0 size') t3 of
                    (r4, t4) \<Rightarrow>
                  (case (if status r4 \<noteq> ZX_OK c \<and> placement = kUseHint
                         then invoke k (vmar_map vmar (options AND NOT (ZX_VM_SPECIFIC c)) 0
                                          vmo 0 size') t4
                         else (r4, t4)) of
                     (r5, t5) \<Rightarrow>
                   if status r5 \<noteq> ZX_OK c then (Inr 0, t5)
                   else (Inr (out_addr r5), t5))))))))"

text \<open>
  \<^verbatim>\<open>CreateAddressSpaceReservationInternal\<close> (lines 176-215). It returns the status with
  \<^verbatim>\<open>*child\<close> and \<^verbatim>\<open>*child_addr\<close> as the last \<^verbatim>\<open>vmar.allocate\<close> left them: the reply of that
  request.
\<close>

definition CreateAddressSpaceReservationInternal ::
  "zx_consts \<Rightarrow> process \<Rightarrow> kernel \<Rightarrow> zx_handle_t \<Rightarrow> address \<Rightarrow> size_t \<Rightarrow> address \<Rightarrow>
   PlacementMode \<Rightarrow> size_t \<Rightarrow> size_t \<Rightarrow> MemoryPermission \<Rightarrow> trace \<Rightarrow> (abort + zx_reply) \<times> trace" where
  "CreateAddressSpaceReservationInternal c P k vmar vmar_base page_size address placement size'
       alignment max_permission t =
     (case placement_dchecks P page_size address placement size' alignment of
        Some e \<Rightarrow> (Inl e, t)
      | None \<Rightarrow>
        let options = ZX_VM_CAN_MAP_READ c OR ZX_VM_CAN_MAP_WRITE c OR ZX_VM_CAN_MAP_EXECUTE c
                        OR ZX_VM_CAN_MAP_SPECIFIC c;
            alignment_option = GetAlignmentOptionFromAlignment c alignment
        in
        if alignment_option = 0 then (Inl CheckFailed, t)
        else
          let options = options OR alignment_option in
          (case (if placement \<noteq> kAnywhere then DCHECK P (vmar_base \<le> address) else None) of
             Some e \<Rightarrow> (Inl e, t)
           | None \<Rightarrow>
             let vmar_offset = (if placement \<noteq> kAnywhere then address - vmar_base else 0);
                 options = (if placement \<noteq> kAnywhere then options OR ZX_VM_SPECIFIC c
                            else options)
             in
             (case invoke k (vmar_allocate vmar options vmar_offset size') t of
                (r1, t1) \<Rightarrow>
              (case (if status r1 \<noteq> ZX_OK c \<and> placement = kUseHint
                     then invoke k (vmar_allocate vmar (options AND NOT (ZX_VM_SPECIFIC c)) 0
                                      size') t1
                     else (r1, t1)) of
                 (r2, t2) \<Rightarrow> (Inr r2, t2)))))"

text \<open>\<^verbatim>\<open>SetPermissionsInternal\<close> (lines 157-165) and \<^verbatim>\<open>DiscardSystemPagesInternal\<close> (167-174).\<close>

definition SetPermissionsInternal ::
  "zx_consts \<Rightarrow> process \<Rightarrow> kernel \<Rightarrow> zx_handle_t \<Rightarrow> size_t \<Rightarrow> address \<Rightarrow> size_t \<Rightarrow>
   MemoryPermission \<Rightarrow> trace \<Rightarrow> (abort + bool) \<times> trace" where
  "SetPermissionsInternal c P k vmar page_size address size' access t =
     (case checks [DCHECK_EQ_0_mod P address page_size, DCHECK_EQ_0_mod P size' page_size] of
        Some e \<Rightarrow> (Inl e, t)
      | None \<Rightarrow>
        let prot = GetProtectionFromMemoryPermission c access in
        (case invoke k (vmar_protect vmar prot address size') t of
           (r, t1) \<Rightarrow> (Inr (status r = ZX_OK c), t1)))"

definition DiscardSystemPagesInternal ::
  "zx_consts \<Rightarrow> process \<Rightarrow> kernel \<Rightarrow> zx_handle_t \<Rightarrow> size_t \<Rightarrow> address \<Rightarrow> size_t \<Rightarrow>
   trace \<Rightarrow> (abort + bool) \<times> trace" where
  "DiscardSystemPagesInternal c P k vmar page_size address size' t =
     (case checks [DCHECK_EQ_0_mod P address page_size, DCHECK_EQ_0_mod P size' page_size] of
        Some e \<Rightarrow> (Inl e, t)
      | None \<Rightarrow>
        let address_int = address in
        (case invoke k (vmar_op_range vmar (ZX_VMO_OP_DECOMMIT c) address_int size' 0 0) t of
           (r, t1) \<Rightarrow> (Inr (status r = ZX_OK c), t1)))"

section \<open>The static functions of \<^verbatim>\<open>OS\<close> (lines 239-335)\<close>

definition OS_Allocate ::
  "zx_consts \<Rightarrow> process \<Rightarrow> kernel \<Rightarrow> address \<Rightarrow> size_t \<Rightarrow> size_t \<Rightarrow> MemoryPermission \<Rightarrow>
   trace \<Rightarrow> (abort + address) \<times> trace" where
  "OS_Allocate c P k address size' alignment access t =
     (let placement = (if address \<noteq> 0 then kUseHint else kAnywhere)
      in AllocateInternal c P k (root_self P) (g_root_vmar_base P) (AllocatePageSize P)
           address placement size' alignment access t)"

definition OS_SetPermissions ::
  "zx_consts \<Rightarrow> process \<Rightarrow> kernel \<Rightarrow> address \<Rightarrow> size_t \<Rightarrow> MemoryPermission \<Rightarrow> trace \<Rightarrow>
   (abort + bool) \<times> trace" where
  "OS_SetPermissions c P k address size' access t =
     SetPermissionsInternal c P k (root_self P) (CommitPageSize P) address size' access t"

definition OS_DiscardSystemPages ::
  "zx_consts \<Rightarrow> process \<Rightarrow> kernel \<Rightarrow> address \<Rightarrow> size_t \<Rightarrow> trace \<Rightarrow> (abort + bool) \<times> trace" where
  "OS_DiscardSystemPages c P k address size' t =
     DiscardSystemPagesInternal c P k (root_self P) (CommitPageSize P) address size' t"

text \<open>
  \<^verbatim>\<open>OS::DecommitPages\<close> (lines 271-277): \<^verbatim>\<open>a && b\<close> evaluates \<^verbatim>\<open>b\<close> only when \<^verbatim>\<open>a\<close> is true.
\<close>

definition OS_DecommitPages ::
  "zx_consts \<Rightarrow> process \<Rightarrow> kernel \<Rightarrow> address \<Rightarrow> size_t \<Rightarrow> trace \<Rightarrow> (abort + bool) \<times> trace" where
  "OS_DecommitPages c P k address size' t =
     (case OS_SetPermissions c P k address size' kNoAccess t of
        (Inl e, t1) \<Rightarrow> (Inl e, t1)
      | (Inr ok, t1) \<Rightarrow>
          if ok then OS_DiscardSystemPages c P k address size' t1 else (Inr False, t1))"

text \<open>
  \<^verbatim>\<open>OS::CreateAddressSpaceReservation\<close> (lines 283-297): \<open>None\<close> is the empty \<^verbatim>\<open>Optional\<close>.
\<close>

definition OS_CreateAddressSpaceReservation ::
  "zx_consts \<Rightarrow> process \<Rightarrow> kernel \<Rightarrow> address \<Rightarrow> size_t \<Rightarrow> size_t \<Rightarrow> MemoryPermission \<Rightarrow>
   trace \<Rightarrow> (abort + AddressSpaceReservation option) \<times> trace" where
  "OS_CreateAddressSpaceReservation c P k hint size' alignment max_permission t =
     (case DCHECK_EQ_0_mod P hint alignment of
        Some e \<Rightarrow> (Inl e, t)
      | None \<Rightarrow>
        let placement = (if hint \<noteq> 0 then kUseHint else kAnywhere) in
        (case CreateAddressSpaceReservationInternal c P k (root_self P) (g_root_vmar_base P)
                (AllocatePageSize P) hint placement size' alignment max_permission t of
           (Inl e, t1) \<Rightarrow> (Inl e, t1)
         | (Inr r, t1) \<Rightarrow>
             if status r \<noteq> ZX_OK c then (Inr None, t1)
             else (Inr (Some \<lparr> asr_base = out_addr r, asr_size = size', asr_vmar = out_handle r \<rparr>), t1)))"

text \<open>
  \<^verbatim>\<open>OS::GetUserTime\<close> (lines 317-335). The two out parameters are passed in with the
  values the caller's variables hold and returned with the values they hold afterwards.
  \<^verbatim>\<open>kNanosPerMicrosecond\<close> is \<^verbatim>\<open>1000ULL\<close>, so the sum is computed on unsigned 64-bit
  integers and wraps; \<^verbatim>\<open>static_cast<uint32_t>\<close> keeps the low 32 bits.
\<close>

definition GetUserTime ::
  "zx_consts \<Rightarrow> process \<Rightarrow> kernel \<Rightarrow> 32 word \<Rightarrow> 32 word \<Rightarrow> trace \<Rightarrow>
   (int \<times> 32 word \<times> 32 word) \<times> trace" where
  "GetUserTime c P k secs usecs t =
     (let kNanosPerMicrosecond = (1000 :: 64 word);
          kMicrosPerSecond = (1000000 :: 64 word)
      in
      (case invoke k (thread_get_info (thread_self P) (ZX_INFO_THREAD_STATS c)) t of
         (info, t1) \<Rightarrow>
         if status info \<noteq> ZX_OK c then ((- 1, secs, usecs), t1)
         else
           let micros_since_thread_started =
                 (total_runtime info + kNanosPerMicrosecond - 1) div kNanosPerMicrosecond
           in ((0, ucast (micros_since_thread_started div kMicrosPerSecond),
                   ucast (micros_since_thread_started mod kMicrosPerSecond)), t1)))"

section \<open>\<^verbatim>\<open>AddressSpaceReservation\<close> (lines 366-400)\<close>


definition AddressSpaceReservation_SetPermissions ::
  "zx_consts \<Rightarrow> process \<Rightarrow> kernel \<Rightarrow> AddressSpaceReservation \<Rightarrow> address \<Rightarrow> size_t \<Rightarrow>
   MemoryPermission \<Rightarrow> trace \<Rightarrow> (abort + bool) \<times> trace" where
  "AddressSpaceReservation_SetPermissions c P k r address size' access t =
     (case DCHECK P (Contains P r address size') of
        Some e \<Rightarrow> (Inl e, t)
      | None \<Rightarrow>
          SetPermissionsInternal c P k (asr_vmar r) (CommitPageSize P) address size' access t)"

definition AddressSpaceReservation_DiscardSystemPages ::
  "zx_consts \<Rightarrow> process \<Rightarrow> kernel \<Rightarrow> AddressSpaceReservation \<Rightarrow> address \<Rightarrow> size_t \<Rightarrow>
   trace \<Rightarrow> (abort + bool) \<times> trace" where
  "AddressSpaceReservation_DiscardSystemPages c P k r address size' t =
     (case DCHECK P (Contains P r address size') of
        Some e \<Rightarrow> (Inl e, t)
      | None \<Rightarrow> DiscardSystemPagesInternal c P k (asr_vmar r) (CommitPageSize P) address size' t)"

definition AddressSpaceReservation_DecommitPages ::
  "zx_consts \<Rightarrow> process \<Rightarrow> kernel \<Rightarrow> AddressSpaceReservation \<Rightarrow> address \<Rightarrow> size_t \<Rightarrow>
   trace \<Rightarrow> (abort + bool) \<times> trace" where
  "AddressSpaceReservation_DecommitPages c P k r address size' t =
     (case DCHECK P (Contains P r address size') of
        Some e \<Rightarrow> (Inl e, t)
      | None \<Rightarrow>
        (case AddressSpaceReservation_SetPermissions c P k r address size' kNoAccess t of
           (Inl e, t1) \<Rightarrow> (Inl e, t1)
         | (Inr ok, t1) \<Rightarrow>
             if ok then AddressSpaceReservation_DiscardSystemPages c P k r address size' t1
             else (Inr False, t1)))"


section \<open>Reading a history\<close>

text \<open>
  \<open>issued t t'\<close> is what a call that started in history \<open>t\<close> and ended in \<open>t'\<close> added;
  \<open>placements\<close> keeps the placement requests, \<^verbatim>\<open>vmar.map\<close> and \<^verbatim>\<open>vmar.allocate\<close>.
\<close>

definition issued :: "trace \<Rightarrow> trace \<Rightarrow> trace" where
  "issued t t' = drop (length t) t'"

fun is_placement :: "syscall \<times> zx_reply \<Rightarrow> bool" where
  "is_placement (vmar_map vmar options vmar_offset vmo vmo_offset len, rep) = True"
| "is_placement (vmar_allocate vmar options vmar_offset size', rep) = True"
| "is_placement (req, rep) = False"

definition placements :: "trace \<Rightarrow> trace" where
  "placements t = filter is_placement t"

section \<open>A small kernel and process, to run the functions on\<close>

text \<open>
  \<open>toy_kernel refuse\<close> answers \<^verbatim>\<open>ZX_ERR_NO_MEMORY\<close> (-4) to the requests \<open>refuse\<close> holds of
  and \<^verbatim>\<open>ZX_OK\<close> to the others: it places a mapping or a child region at address
  \<open>0x10000\<close> plus the offset asked for, hands out handle 7, and reports \<open>runtime\<close>
  nanoseconds of thread runtime.
\<close>

definition toy_kernel :: "(syscall \<Rightarrow> bool) \<Rightarrow> 64 word \<Rightarrow> kernel" where
  "toy_kernel refuse runtime t req =
     (if refuse req
      then \<lparr> status = - 4, out_handle = 0, out_addr = 0, total_runtime = 0 \<rparr>
      else (case req of
              vmar_map vmar options vmar_offset vmo vmo_offset len \<Rightarrow>
                \<lparr> status = 0, out_handle = 0, out_addr = 0x10000 + vmar_offset, total_runtime = 0 \<rparr>
            | vmar_allocate vmar options vmar_offset size' \<Rightarrow>
                \<lparr> status = 0, out_handle = 7, out_addr = 0x10000 + vmar_offset, total_runtime = 0 \<rparr>
            | _ \<Rightarrow> \<lparr> status = 0, out_handle = 7, out_addr = 0, total_runtime = runtime \<rparr>))"

fun refuse_nothing :: "syscall \<Rightarrow> bool" where
  "refuse_nothing req = False"

fun refuse_specific :: "syscall \<Rightarrow> bool" where
  "refuse_specific (vmar_map vmar options vmar_offset vmo vmo_offset len) = (options AND 16 \<noteq> 0)"
| "refuse_specific (vmar_allocate vmar options vmar_offset size') = (options AND 16 \<noteq> 0)"
| "refuse_specific req = False"

fun refuse_executable :: "syscall \<Rightarrow> bool" where
  "refuse_executable (vmo_replace_as_executable vmo vmex) = True"
| "refuse_executable req = False"

fun refuse_decommit :: "syscall \<Rightarrow> bool" where
  "refuse_decommit (vmar_op_range vmar opcode addr size' buffer buffer_size) = True"
| "refuse_decommit req = False"

fun refuse_thread_info :: "syscall \<Rightarrow> bool" where
  "refuse_thread_info (thread_get_info thread topic) = True"
| "refuse_thread_info req = False"

text \<open>
  A process with 4 KiB pages whose root region starts at \<open>0x10000\<close>, and a reservation
  of four pages at that address. \<open>contains\<close> is the value the toy process gives the
  parameter \<open>Contains\<close>: the range lies between the reservation's base and its end,
  computed without wrap-around.
\<close>

definition contains :: "AddressSpaceReservation \<Rightarrow> address \<Rightarrow> size_t \<Rightarrow> bool" where
  "contains r a n =
     (unat (asr_base r) \<le> unat a \<and> unat a + unat n \<le> unat (asr_base r) + unat (asr_size r))"

definition toy_process :: "bool \<Rightarrow> process" where
  "toy_process debug =
     \<lparr> DEBUG = debug, g_vmex_resource = 5, g_root_vmar_base = 0x10000, root_self = 1,
       thread_self = 2, AllocatePageSize = 4096, CommitPageSize = 4096, Contains = contains \<rparr>"

definition toy_reservation :: AddressSpaceReservation where
  "toy_reservation = \<lparr> asr_base = 0x10000, asr_size = 0x4000, asr_vmar = 7 \<rparr>"



section \<open>The Alignment Resolver\<close>

lemma unat_pow2_64: "k < 64 \<Longrightarrow> unat (2 ^ k :: 64 word) = 2 ^ k"
proof -
  assume k: "k < 64"
  have "(2 ^ k :: 64 word) = of_nat (2 ^ k)" by simp
  then have "unat (2 ^ k :: 64 word) = 2 ^ k mod 2 ^ LENGTH(64)"
    by (simp only: unat_of_nat)
  moreover have "(2::nat) ^ k < 2 ^ LENGTH(64)"
    using k by (simp only: len_num0 len_bit0 len_num1 power_strict_increasing_iff)
  ultimately show ?thesis by (simp only: mod_less)
qed

lemma pow2_word64_inj:
  assumes "m < 64" "n < 64" "(2 ^ m :: 64 word) = 2 ^ n"
  shows "m = n"
proof -
  have "unat (2 ^ m :: 64 word) = unat (2 ^ n :: 64 word)" using assms(3) by (rule arg_cong)
  then have "(2::nat) ^ m = 2 ^ n" using assms(1,2) by (simp only: unat_pow2_64)
  then show ?thesis by simp
qed

lemma le_pow: "b \<le> 26 \<Longrightarrow> k \<le> 32 \<Longrightarrow> k * 2 ^ b < (2::nat) ^ 32"
proof -
  assume a: "b \<le> 26" "k \<le> 32"
  have "(2::nat) ^ b \<le> 2 ^ 26" using a(1) by (intro power_increasing) simp_all
  then have "k * 2 ^ b \<le> 32 * 2 ^ 26" using a(2) by (intro mult_le_mono)
  also have "\<dots> < (2::nat) ^ 32" by simp
  finally show ?thesis .
qed

lemma unat_class:
  assumes "b \<le> 26" "k \<le> 32"
  shows "unat (push_bit b (of_nat k :: 32 word)) = k * 2 ^ b"
proof -
  have "push_bit b (of_nat k :: 32 word) = of_nat (k * 2 ^ b)"
    by (simp add: push_bit_eq_mult)
  then have "unat (push_bit b (of_nat k :: 32 word)) = (k * 2 ^ b) mod 2 ^ LENGTH(32)"
    by (simp only: unat_of_nat)
  moreover have "k * 2 ^ b < 2 ^ LENGTH(32)"
    using le_pow [OF assms] by simp
  ultimately show ?thesis by (simp only: mod_less)
qed


lemma alignment_loop_pow2:
  "shift \<le> n \<Longrightarrow> n \<le> 32 \<Longrightarrow> alignment_loop (2 ^ n) shift = of_nat n"
proof (induction "2 ^ n :: 64 word" shift rule: alignment_loop.induct)
  case (1 shift)
  show ?case
  proof (cases "shift = n")
    case True
    then show ?thesis using 1 by (simp add: alignment_loop.simps [of _ n])
  next
    case False
    then have ne: "(2 ^ n :: 64 word) \<noteq> push_bit shift 1"
      using 1(2,3) pow2_word64_inj [of n shift] by (auto simp: push_bit_eq_mult)
    have "alignment_loop (2 ^ n) shift = alignment_loop (2 ^ n) (shift + 1)"
      using ne 1(2,3) by (subst alignment_loop.simps) simp
    also have "\<dots> = of_nat n" using 1 False ne by simp
    finally show ?thesis .
  qed
qed

lemma alignment_loop_range:
  "alignment_loop a shift \<noteq> 0 \<Longrightarrow> \<exists>n. shift \<le> n \<and> n \<le> 32 \<and> a = 2 ^ n"
proof (induction a shift rule: alignment_loop.induct)
  case (1 alignment shift)
  show ?case
  proof (cases "shift \<le> 32")
    case False
    then show ?thesis using 1(2) by (simp add: alignment_loop.simps [of _ shift])
  next
    case le: True
    show ?thesis
    proof (cases "alignment = push_bit shift 1")
      case True
      then show ?thesis using le by (auto simp: push_bit_eq_mult)
    next
      case False
      then have "alignment_loop alignment (shift + 1) \<noteq> 0"
        using 1(2) le by (simp add: alignment_loop.simps [of _ shift])
      then obtain n where "shift + 1 \<le> n" "n \<le> 32" "alignment = 2 ^ n"
        using 1(1) [OF le False] by blast
      then show ?thesis by (intro exI [of _ n]) simp
    qed
  qed
qed

lemma GetAlignmentOption_pow2:
  "10 \<le> n \<Longrightarrow> n \<le> 32 \<Longrightarrow>
   GetAlignmentOptionFromAlignment c (2 ^ n) = push_bit (ZX_VM_ALIGN_BASE c) (of_nat n)"
  by (simp add: GetAlignmentOptionFromAlignment_def alignment_loop_pow2)

lemma GetAlignmentOption_other:
  "\<not> (\<exists>n. 10 \<le> n \<and> n \<le> 32 \<and> a = 2 ^ n) \<Longrightarrow> GetAlignmentOptionFromAlignment c a = 0"
proof -
  assume none: "\<not> (\<exists>n. 10 \<le> n \<and> n \<le> 32 \<and> a = 2 ^ n)"
  have "alignment_loop a 10 = 0"
  proof (rule ccontr)
    assume "alignment_loop a 10 \<noteq> 0"
    then have "\<exists>n. 10 \<le> n \<and> n \<le> 32 \<and> a = 2 ^ n" by (rule alignment_loop_range)
    with none show False by contradiction
  qed
  then show ?thesis by (simp add: GetAlignmentOptionFromAlignment_def)
qed

text \<open>
  Claim C6. Let the class be shifted by at most 26 bits, so that the largest one, 32,
  fits the 32-bit option word (in Zircon \<^verbatim>\<open>ZX_VM_ALIGN_BASE\<close> is 24). Then for
  every \<open>n\<close> from 10 to 32 the alignment \<open>2 ^ n\<close>, 1 KiB to 4 GiB, resolves to the class
  that holds \<open>n\<close>, its base-2 logarithm, shifted by \<^verbatim>\<open>ZX_VM_ALIGN_BASE\<close>; the class is not 0,
  and two such alignments with the same class are equal. Every other alignment, whether
  not a power of two or out of the range, resolves to 0.
\<close>

theorem alignment_resolver_classes:
  assumes base: "ZX_VM_ALIGN_BASE c \<le> 26"
  shows "(\<forall>n. 10 \<le> n \<and> n \<le> 32 \<longrightarrow>
            GetAlignmentOptionFromAlignment c (2 ^ n) = push_bit (ZX_VM_ALIGN_BASE c) (of_nat n)
          \<and> unat (GetAlignmentOptionFromAlignment c (2 ^ n)) = n * 2 ^ ZX_VM_ALIGN_BASE c
          \<and> GetAlignmentOptionFromAlignment c (2 ^ n) \<noteq> 0)
       \<and> (\<forall>m n. 10 \<le> m \<and> m \<le> 32 \<and> 10 \<le> n \<and> n \<le> 32
            \<and> GetAlignmentOptionFromAlignment c (2 ^ m) = GetAlignmentOptionFromAlignment c (2 ^ n)
            \<longrightarrow> m = n)
       \<and> (\<forall>a. \<not> (\<exists>n. 10 \<le> n \<and> n \<le> 32 \<and> a = 2 ^ n)
            \<longrightarrow> GetAlignmentOptionFromAlignment c a = 0)"
proof (intro conjI allI impI)
  fix n :: nat
  assume n: "10 \<le> n \<and> n \<le> 32"
  show eq: "GetAlignmentOptionFromAlignment c (2 ^ n) = push_bit (ZX_VM_ALIGN_BASE c) (of_nat n)"
    using n by (simp add: GetAlignmentOption_pow2)
  show u: "unat (GetAlignmentOptionFromAlignment c (2 ^ n)) = n * 2 ^ ZX_VM_ALIGN_BASE c"
    using n base by (simp only: eq unat_class)
  have "0 < n * 2 ^ ZX_VM_ALIGN_BASE c" using n by simp
  then have "unat (GetAlignmentOptionFromAlignment c (2 ^ n)) \<noteq> 0" by (simp only: u)
  then show "GetAlignmentOptionFromAlignment c (2 ^ n) \<noteq> 0" by (metis unat_0)
next
  fix m n :: nat
  assume a: "10 \<le> m \<and> m \<le> 32 \<and> 10 \<le> n \<and> n \<le> 32
    \<and> GetAlignmentOptionFromAlignment c (2 ^ m) = GetAlignmentOptionFromAlignment c (2 ^ n)"
  have em: "GetAlignmentOptionFromAlignment c (2 ^ m) = push_bit (ZX_VM_ALIGN_BASE c) (of_nat m)"
    using a by (intro GetAlignmentOption_pow2) simp_all
  have en: "GetAlignmentOptionFromAlignment c (2 ^ n) = push_bit (ZX_VM_ALIGN_BASE c) (of_nat n)"
    using a by (intro GetAlignmentOption_pow2) simp_all
  have "push_bit (ZX_VM_ALIGN_BASE c) (of_nat m :: 32 word) = push_bit (ZX_VM_ALIGN_BASE c) (of_nat n)"
    using a em en by metis
  then have "unat (push_bit (ZX_VM_ALIGN_BASE c) (of_nat m :: 32 word))
      = unat (push_bit (ZX_VM_ALIGN_BASE c) (of_nat n :: 32 word))" by (rule arg_cong)
  then have "m * 2 ^ ZX_VM_ALIGN_BASE c = n * 2 ^ ZX_VM_ALIGN_BASE c"
    using a base by (simp only: unat_class)
  then show "m = n" by simp
next
  fix a :: "64 word"
  assume "\<not> (\<exists>n. 10 \<le> n \<and> n \<le> 32 \<and> a = 2 ^ n)"
  then show "GetAlignmentOptionFromAlignment c a = 0" by (rule GetAlignmentOption_other)
qed

text \<open>
  With the Zircon constants: 4 KiB resolves to \<open>12 << 24\<close>, which differs from the class of
  1 KiB, and neither 4097 nor 512 has a class.
\<close>

theorem alignment_resolver_classes_witness:
  "ZX_VM_ALIGN_BASE zircon \<le> 26
   \<and> GetAlignmentOptionFromAlignment zircon 4096 = 201326592
   \<and> GetAlignmentOptionFromAlignment zircon 4096 \<noteq> GetAlignmentOptionFromAlignment zircon 1024
   \<and> GetAlignmentOptionFromAlignment zircon 4097 = 0
   \<and> GetAlignmentOptionFromAlignment zircon 512 = 0"
proof -
  have b: "ZX_VM_ALIGN_BASE zircon \<le> 26" by (simp add: zircon_def)
  note th = alignment_resolver_classes [OF b]
  have p12: "(4096 :: 64 word) = 2 ^ 12" by simp
  have p10: "(1024 :: 64 word) = 2 ^ 10" by simp
  have v12: "GetAlignmentOptionFromAlignment zircon (2 ^ 12) = 201326592"
    using th [THEN conjunct1, rule_format, of 12] by (simp add: zircon_def)
  have ne: "GetAlignmentOptionFromAlignment zircon (2 ^ 12) \<noteq> GetAlignmentOptionFromAlignment zircon (2 ^ 10)"
    using th [THEN conjunct2, THEN conjunct1, rule_format, of 12 10] by auto
  have n1: "\<not> (\<exists>n. 10 \<le> n \<and> n \<le> 32 \<and> (4097 :: 64 word) = 2 ^ n)"
  proof
    assume "\<exists>n. 10 \<le> n \<and> n \<le> 32 \<and> (4097 :: 64 word) = 2 ^ n"
    then obtain n where n: "10 \<le> n" "n \<le> 32" "(4097 :: 64 word) = 2 ^ n" by blast
    have "even (2 ^ n :: 64 word)" using n(1) by simp
    then have "even (4097 :: 64 word)" by (simp only: n(3))
    then show False by simp
  qed
  have n2: "\<not> (\<exists>n. 10 \<le> n \<and> n \<le> 32 \<and> (512 :: 64 word) = 2 ^ n)"
  proof
    assume "\<exists>n. 10 \<le> n \<and> n \<le> 32 \<and> (512 :: 64 word) = 2 ^ n"
    then obtain n where n: "10 \<le> n" "n \<le> 32" "(512 :: 64 word) = 2 ^ n" by blast
    have "(512 :: 64 word) = 2 ^ 9" by simp
    then have "(2 ^ 9 :: 64 word) = 2 ^ n" using n(3) by simp
    then have "9 = n" using n(2) by (intro pow2_word64_inj) simp_all
    then show False using n(1) by simp
  qed
  show ?thesis
    using b v12 ne th [THEN conjunct2, THEN conjunct2, rule_format, OF n1]
      th [THEN conjunct2, THEN conjunct2, rule_format, OF n2]
    by (simp only: p12 p10) simp
qed


section \<open>The Permission Translator\<close>

text \<open>
  Claim C7. \<^verbatim>\<open>GetProtectionFromMemoryPermission\<close> is a function of its argument alone, with
  a bitmask for each of the six access levels and no failure: \<^verbatim>\<open>kNoAccess\<close> and
  \<^verbatim>\<open>kNoAccessWillJitLater\<close> both give 0, the other four the bits the \<^verbatim>\<open>switch\<close> names, and
  equal access levels give equal bitmasks.
\<close>

theorem permission_translator_total:
  "GetProtectionFromMemoryPermission c kNoAccess = 0
   \<and> GetProtectionFromMemoryPermission c kNoAccessWillJitLater = 0
   \<and> GetProtectionFromMemoryPermission c kRead = ZX_VM_PERM_READ c
   \<and> GetProtectionFromMemoryPermission c kReadWrite = ZX_VM_PERM_READ c OR ZX_VM_PERM_WRITE c
   \<and> GetProtectionFromMemoryPermission c kReadWriteExecute
       = ZX_VM_PERM_READ c OR ZX_VM_PERM_WRITE c OR ZX_VM_PERM_EXECUTE c
   \<and> GetProtectionFromMemoryPermission c kReadExecute
       = ZX_VM_PERM_READ c OR ZX_VM_PERM_EXECUTE c
   \<and> (\<forall>a. \<exists>bits. GetProtectionFromMemoryPermission c a = bits)
   \<and> (\<forall>a b. a = b \<longrightarrow>
          GetProtectionFromMemoryPermission c a = GetProtectionFromMemoryPermission c b)"
  by simp

theorem permission_translator_total_witness:
  "GetProtectionFromMemoryPermission zircon kNoAccess = 0
   \<and> GetProtectionFromMemoryPermission zircon kNoAccessWillJitLater = 0
   \<and> GetProtectionFromMemoryPermission zircon kReadWrite = 3
   \<and> GetProtectionFromMemoryPermission zircon kReadWrite
       = GetProtectionFromMemoryPermission zircon kReadWrite"
  using permission_translator_total [of zircon]
  by (simp add: zircon_def)


section \<open>What a run of the Allocation Primitive looks like\<close>

text \<open>
  The body of \<^verbatim>\<open>AllocateInternal\<close> with every reply named: \<open>r1\<close> to \<open>r5\<close> are the replies
  to the five requests it can make, \<open>t1\<close> to \<open>t4\<close> the histories in between.
\<close>

lemma issued_append [simp]: "issued t (t @ new) = new"
  by (simp add: issued_def)

lemma issued_self [simp]: "issued t t = []"
  by (simp add: issued_def)

lemma placements_Nil [simp]: "placements [] = []"
  by (simp add: placements_def)

lemma placements_Cons [simp]:
  "placements (e # es) = (if is_placement e then e # placements es else placements es)"
  by (simp add: placements_def)

lemma invoke_eq: "invoke k req t = (k t req, t @ [(req, k t req)])"
  by (simp add: invoke_def Let_def)

lemma AllocateInternal_flat:
  assumes r1: "r1 = k t (vmo_create size' 0)"
    and t1: "t1 = t @ [(vmo_create size' 0, r1)]"
    and r2: "r2 = k t1 (vmo_set_property (out_handle r1) (ZX_PROP_NAME c) kVirtualMemoryName
                      (of_nat (length kVirtualMemoryName)))"
    and t2: "t2 = t1 @ [(vmo_set_property (out_handle r1) (ZX_PROP_NAME c) kVirtualMemoryName
                      (of_nat (length kVirtualMemoryName)), r2)]"
    and r3: "r3 = k t2 (vmo_replace_as_executable (out_handle r1) (g_vmex_resource P))"
    and t3: "t3 = t2 @ [(vmo_replace_as_executable (out_handle r1) (g_vmex_resource P), r3)]"
    and opts: "opts = GetProtectionFromMemoryPermission c access
                  OR GetAlignmentOptionFromAlignment c alignment"
    and first_map: "first_map = vmar_map vmar
                  (if placement = kAnywhere then opts else opts OR ZX_VM_SPECIFIC c)
                  (if placement = kAnywhere then 0 else address - vmar_base)
                  (out_handle r3) 0 size'"
    and r4: "r4 = k t3 first_map"
    and t4: "t4 = t3 @ [(first_map, r4)]"
    and retry_map: "retry_map = vmar_map vmar ((opts OR ZX_VM_SPECIFIC c) AND NOT (ZX_VM_SPECIFIC c)) 0
                  (out_handle r3) 0 size'"
    and r5: "r5 = k t4 retry_map"
  shows "AllocateInternal c P k vmar vmar_base page_size address placement size' alignment access t =
     (case placement_dchecks P page_size address placement size' alignment of
          Some e \<Rightarrow> (Inl e, t)
        | None \<Rightarrow>
          if status r1 \<noteq> ZX_OK c then (Inr 0, t1)
          else if status r3 \<noteq> ZX_OK c then (Inr 0, t3)
          else if GetAlignmentOptionFromAlignment c alignment = 0 then (Inl CheckFailed, t3)
          else if placement \<noteq> kAnywhere \<and> DEBUG P \<and> \<not> vmar_base \<le> address
            then (Inl DcheckFailed, t3)
          else if status r4 \<noteq> ZX_OK c \<and> placement = kUseHint
            then (Inr (if status r5 = ZX_OK c then out_addr r5 else 0), t4 @ [(retry_map, r5)])
          else (Inr (if status r4 = ZX_OK c then out_addr r4 else 0), t4))"
proof (cases "placement_dchecks P page_size address placement size' alignment")
  case (Some e)
  then show ?thesis by (simp add: AllocateInternal_def)
next
  case None
  have i1: "invoke k (vmo_create size' 0) t = (r1, t1)"
    by (simp only: invoke_eq r1 t1)
  have i2: "invoke k (vmo_set_property (out_handle r1) (ZX_PROP_NAME c) kVirtualMemoryName
                      (of_nat (length kVirtualMemoryName))) t1 = (r2, t2)"
    by (simp only: invoke_eq r2 t2)
  have i3: "invoke k (vmo_replace_as_executable (out_handle r1) (g_vmex_resource P)) t2 = (r3, t3)"
    by (simp only: invoke_eq r3 t3)
  have i4: "invoke k first_map t3 = (r4, t4)"
    by (simp only: invoke_eq r4 t4)
  have i5: "invoke k retry_map t4 = (r5, t4 @ [(retry_map, r5)])"
    by (simp only: invoke_eq r5)
  show ?thesis
  proof (cases placement)
    case kAnywhere
    then have m1: "first_map = vmar_map vmar opts 0 (out_handle r3) 0 size'" by (simp add: first_map)
    show ?thesis
      unfolding AllocateInternal_def None option.case i1 prod.case i2 i3 Let_def
      using kAnywhere i4 [unfolded m1]
      by (simp add: opts m1)
  next
    case kUseHint
    then have m1: "first_map = vmar_map vmar (opts OR ZX_VM_SPECIFIC c) (address - vmar_base)
        (out_handle r3) 0 size'" by (simp add: first_map)
    show ?thesis
      unfolding AllocateInternal_def None option.case i1 prod.case i2 i3 Let_def
      using kUseHint i4 [unfolded m1] i5 [unfolded retry_map]
      by (simp add: opts m1 retry_map DCHECK_def)
  next
    case kFixed
    then have m1: "first_map = vmar_map vmar (opts OR ZX_VM_SPECIFIC c) (address - vmar_base)
        (out_handle r3) 0 size'" by (simp add: first_map)
    show ?thesis
      unfolding AllocateInternal_def None option.case i1 prod.case i2 i3 Let_def
      using kFixed i4 [unfolded m1]
      by (simp add: opts m1 DCHECK_def)
  qed
qed


lemma AllocateInternal_placements:
  assumes "placements (issued t (snd (AllocateInternal c P k vmar vmar_base page_size address
              placement size' alignment access t))) = (req1, rep1) # rest"
  shows "\<exists>vmo.
     req1 = vmar_map vmar
              (if placement = kAnywhere
               then GetProtectionFromMemoryPermission c access OR GetAlignmentOptionFromAlignment c alignment
               else (GetProtectionFromMemoryPermission c access OR GetAlignmentOptionFromAlignment c alignment)
                      OR ZX_VM_SPECIFIC c)
              (if placement = kAnywhere then 0 else address - vmar_base) vmo 0 size'
     \<and> (if status rep1 \<noteq> ZX_OK c \<and> placement = kUseHint
        then \<exists>rep2. rest = [(vmar_map vmar
                              (((GetProtectionFromMemoryPermission c access
                                 OR GetAlignmentOptionFromAlignment c alignment)
                                 OR ZX_VM_SPECIFIC c) AND NOT (ZX_VM_SPECIFIC c))
                              0 vmo 0 size', rep2)]
                 \<and> fst (AllocateInternal c P k vmar vmar_base page_size address
                          placement size' alignment access t)
                     = Inr (if status rep2 = ZX_OK c then out_addr rep2 else 0)
        else rest = []
           \<and> fst (AllocateInternal c P k vmar vmar_base page_size address
                    placement size' alignment access t)
               = Inr (if status rep1 = ZX_OK c then out_addr rep1 else 0))"
proof -
  define r1 where "r1 = k t (vmo_create size' 0)"
  define t1 where "t1 = t @ [(vmo_create size' 0, r1)]"
  define r2 where "r2 = k t1 (vmo_set_property (out_handle r1) (ZX_PROP_NAME c) kVirtualMemoryName
                      (of_nat (length kVirtualMemoryName)))"
  define t2 where "t2 = t1 @ [(vmo_set_property (out_handle r1) (ZX_PROP_NAME c) kVirtualMemoryName
                      (of_nat (length kVirtualMemoryName)), r2)]"
  define r3 where "r3 = k t2 (vmo_replace_as_executable (out_handle r1) (g_vmex_resource P))"
  define t3 where "t3 = t2 @ [(vmo_replace_as_executable (out_handle r1) (g_vmex_resource P), r3)]"
  define opts where "opts = GetProtectionFromMemoryPermission c access
                  OR GetAlignmentOptionFromAlignment c alignment"
  define first_map where "first_map = vmar_map vmar
                  (if placement = kAnywhere then opts else opts OR ZX_VM_SPECIFIC c)
                  (if placement = kAnywhere then 0 else address - vmar_base)
                  (out_handle r3) 0 size'"
  define r4 where "r4 = k t3 first_map"
  define t4 where "t4 = t3 @ [(first_map, r4)]"
  define retry_map where "retry_map = vmar_map vmar
                  ((opts OR ZX_VM_SPECIFIC c) AND NOT (ZX_VM_SPECIFIC c)) 0 (out_handle r3) 0 size'"
  define r5 where "r5 = k t4 retry_map"
  note flat = AllocateInternal_flat [OF r1_def t1_def r2_def t2_def r3_def t3_def opts_def
      first_map_def r4_def t4_def retry_map_def r5_def]
  have p1: "placements (issued t t1) = []"
    by (simp add: t1_def placements_def)
  have p3: "placements (issued t t3) = []"
    by (simp add: t3_def t2_def t1_def placements_def)
  have p4: "placements (issued t t4) = [(first_map, r4)]"
    by (simp add: t4_def t3_def t2_def t1_def placements_def first_map_def)
  have p5: "placements (issued t (t4 @ [(retry_map, r5)])) = [(first_map, r4), (retry_map, r5)]"
    by (simp add: t4_def t3_def t2_def t1_def placements_def first_map_def retry_map_def)
  have p0: "placements (issued t t) = []"
    by (simp add: placements_def)
  let ?run = "AllocateInternal c P k vmar vmar_base page_size address placement size' alignment
      access t"
  have stop: False if "placements (issued t (snd ?run)) = []"
    using that assms by simp
  have shape:
    "placements (issued t (snd ?run)) = []
     \<or> (\<not> (status r4 \<noteq> ZX_OK c \<and> placement = kUseHint)
          \<and> ?run = (Inr (if status r4 = ZX_OK c then out_addr r4 else 0), t4))
     \<or> (status r4 \<noteq> ZX_OK c \<and> placement = kUseHint
          \<and> ?run = (Inr (if status r5 = ZX_OK c then out_addr r5 else 0),
                     t4 @ [(retry_map, r5)]))"
  proof (cases "placement_dchecks P page_size address placement size' alignment")
    case (Some e)
    then have "?run = (Inl e, t)" by (simp add: flat)
    then show ?thesis by (simp add: p0)
  next
    case None
    show ?thesis
    proof (cases "status r1 \<noteq> ZX_OK c")
      case True
      with None have "?run = (Inr 0, t1)" by (simp add: flat)
      then show ?thesis by (simp add: p1)
    next
      case ok1: False
      show ?thesis
      proof (cases "status r3 \<noteq> ZX_OK c \<or> GetAlignmentOptionFromAlignment c alignment = 0
                    \<or> (placement \<noteq> kAnywhere \<and> DEBUG P \<and> \<not> vmar_base \<le> address)")
        case True
        with None ok1 have "snd ?run = t3" by (auto simp add: flat)
        then show ?thesis by (simp add: p3)
      next
        case False
        with None ok1 have
          "?run = (if status r4 \<noteq> ZX_OK c \<and> placement = kUseHint
                   then (Inr (if status r5 = ZX_OK c then out_addr r5 else 0),
                         t4 @ [(retry_map, r5)])
                   else (Inr (if status r4 = ZX_OK c then out_addr r4 else 0), t4))"
          by (auto simp add: flat)
        then show ?thesis
          by (cases "status r4 \<noteq> ZX_OK c \<and> placement = kUseHint") simp_all
      qed
    qed
  qed
  then consider (early) "placements (issued t (snd ?run)) = []"
    | (single) "\<not> (status r4 \<noteq> ZX_OK c \<and> placement = kUseHint)"
        "?run = (Inr (if status r4 = ZX_OK c then out_addr r4 else 0), t4)"
    | (retry) "status r4 \<noteq> ZX_OK c" "placement = kUseHint"
        "?run = (Inr (if status r5 = ZX_OK c then out_addr r5 else 0), t4 @ [(retry_map, r5)])"
    by blast
  then show ?thesis
  proof cases
    case early
    then show ?thesis using stop by blast
  next
    case single
    from assms have "[(first_map, r4)] = (req1, rep1) # rest"
      by (simp only: single(2) snd_conv p4)
    then have e: "req1 = first_map" "rep1 = r4" "rest = []" by simp_all
    have f: "fst ?run = Inr (if status r4 = ZX_OK c then out_addr r4 else 0)"
      by (simp only: single(2) fst_conv)
    show ?thesis
      unfolding e f first_map_def opts_def
      using single(1) by (intro exI [of _ "out_handle r3"]) auto
  next
    case retry
    from assms have "[(first_map, r4), (retry_map, r5)] = (req1, rep1) # rest"
      by (simp only: retry(3) snd_conv p5)
    then have e: "req1 = first_map" "rep1 = r4" "rest = [(retry_map, r5)]" by simp_all
    have f: "fst ?run = Inr (if status r5 = ZX_OK c then out_addr r5 else 0)"
      by (simp only: retry(3) fst_conv)
    show ?thesis
      unfolding e f first_map_def retry_map_def opts_def
      by (rule exI [of _ "out_handle r3"]) (simp add: retry(1,2) [unfolded e])
  qed
qed



section \<open>What a run of the Reservation Primitive looks like\<close>

lemma CreateAddressSpaceReservationInternal_flat:
  assumes opts: "opts = (ZX_VM_CAN_MAP_READ c OR ZX_VM_CAN_MAP_WRITE c OR ZX_VM_CAN_MAP_EXECUTE c
                    OR ZX_VM_CAN_MAP_SPECIFIC c) OR GetAlignmentOptionFromAlignment c alignment"
    and first_alloc: "first_alloc = vmar_allocate vmar
                  (if placement = kAnywhere then opts else opts OR ZX_VM_SPECIFIC c)
                  (if placement = kAnywhere then 0 else address - vmar_base) size'"
    and r1: "r1 = k t first_alloc"
    and t1: "t1 = t @ [(first_alloc, r1)]"
    and retry_alloc: "retry_alloc = vmar_allocate vmar
                  ((opts OR ZX_VM_SPECIFIC c) AND NOT (ZX_VM_SPECIFIC c)) 0 size'"
    and r2: "r2 = k t1 retry_alloc"
  shows "CreateAddressSpaceReservationInternal c P k vmar vmar_base page_size address placement
           size' alignment max_permission t =
     (case placement_dchecks P page_size address placement size' alignment of
          Some e \<Rightarrow> (Inl e, t)
        | None \<Rightarrow>
          if GetAlignmentOptionFromAlignment c alignment = 0 then (Inl CheckFailed, t)
          else if placement \<noteq> kAnywhere \<and> DEBUG P \<and> \<not> vmar_base \<le> address
            then (Inl DcheckFailed, t)
          else if status r1 \<noteq> ZX_OK c \<and> placement = kUseHint
            then (Inr r2, t1 @ [(retry_alloc, r2)])
          else (Inr r1, t1))"
proof (cases "placement_dchecks P page_size address placement size' alignment")
  case (Some e)
  then show ?thesis by (simp add: CreateAddressSpaceReservationInternal_def)
next
  case None
  have i1: "invoke k first_alloc t = (r1, t1)"
    by (simp only: invoke_eq r1 t1)
  have i2: "invoke k retry_alloc t1 = (r2, t1 @ [(retry_alloc, r2)])"
    by (simp only: invoke_eq r2)
  show ?thesis
  proof (cases placement)
    case kAnywhere
    then have m1: "first_alloc = vmar_allocate vmar opts 0 size'" by (simp add: first_alloc)
    show ?thesis
      unfolding CreateAddressSpaceReservationInternal_def None option.case Let_def
      using kAnywhere i1 [unfolded m1]
      by (simp add: opts m1)
  next
    case kUseHint
    then have m1: "first_alloc = vmar_allocate vmar (opts OR ZX_VM_SPECIFIC c)
        (address - vmar_base) size'" by (simp add: first_alloc)
    show ?thesis
      unfolding CreateAddressSpaceReservationInternal_def None option.case Let_def
      using kUseHint i1 [unfolded m1] i2 [unfolded retry_alloc]
      by (simp add: opts m1 retry_alloc DCHECK_def)
  next
    case kFixed
    then have m1: "first_alloc = vmar_allocate vmar (opts OR ZX_VM_SPECIFIC c)
        (address - vmar_base) size'" by (simp add: first_alloc)
    show ?thesis
      unfolding CreateAddressSpaceReservationInternal_def None option.case Let_def
      using kFixed i1 [unfolded m1]
      by (simp add: opts m1 DCHECK_def)
  qed
qed

lemma CreateAddressSpaceReservationInternal_placements:
  assumes "placements (issued t (snd (CreateAddressSpaceReservationInternal c P k vmar vmar_base
              page_size address placement size' alignment max_permission t))) = (req1, rep1) # rest"
  shows "req1 = vmar_allocate vmar
              (if placement = kAnywhere
               then (ZX_VM_CAN_MAP_READ c OR ZX_VM_CAN_MAP_WRITE c OR ZX_VM_CAN_MAP_EXECUTE c
                       OR ZX_VM_CAN_MAP_SPECIFIC c) OR GetAlignmentOptionFromAlignment c alignment
               else ((ZX_VM_CAN_MAP_READ c OR ZX_VM_CAN_MAP_WRITE c OR ZX_VM_CAN_MAP_EXECUTE c
                       OR ZX_VM_CAN_MAP_SPECIFIC c) OR GetAlignmentOptionFromAlignment c alignment)
                      OR ZX_VM_SPECIFIC c)
              (if placement = kAnywhere then 0 else address - vmar_base) size'
     \<and> (if status rep1 \<noteq> ZX_OK c \<and> placement = kUseHint
        then \<exists>rep2. rest = [(vmar_allocate vmar
                              ((((ZX_VM_CAN_MAP_READ c OR ZX_VM_CAN_MAP_WRITE c
                                   OR ZX_VM_CAN_MAP_EXECUTE c OR ZX_VM_CAN_MAP_SPECIFIC c)
                                 OR GetAlignmentOptionFromAlignment c alignment)
                                 OR ZX_VM_SPECIFIC c) AND NOT (ZX_VM_SPECIFIC c))
                              0 size', rep2)]
                 \<and> fst (CreateAddressSpaceReservationInternal c P k vmar vmar_base page_size
                          address placement size' alignment max_permission t) = Inr rep2
        else rest = []
           \<and> fst (CreateAddressSpaceReservationInternal c P k vmar vmar_base page_size
                    address placement size' alignment max_permission t) = Inr rep1)"
proof -
  define opts where "opts = (ZX_VM_CAN_MAP_READ c OR ZX_VM_CAN_MAP_WRITE c
      OR ZX_VM_CAN_MAP_EXECUTE c OR ZX_VM_CAN_MAP_SPECIFIC c)
      OR GetAlignmentOptionFromAlignment c alignment"
  define first_alloc where "first_alloc = vmar_allocate vmar
                  (if placement = kAnywhere then opts else opts OR ZX_VM_SPECIFIC c)
                  (if placement = kAnywhere then 0 else address - vmar_base) size'"
  define r1 where "r1 = k t first_alloc"
  define t1 where "t1 = t @ [(first_alloc, r1)]"
  define retry_alloc where "retry_alloc = vmar_allocate vmar
                  ((opts OR ZX_VM_SPECIFIC c) AND NOT (ZX_VM_SPECIFIC c)) 0 size'"
  define r2 where "r2 = k t1 retry_alloc"
  note flat = CreateAddressSpaceReservationInternal_flat [OF opts_def first_alloc_def r1_def
      t1_def retry_alloc_def r2_def]
  let ?run = "CreateAddressSpaceReservationInternal c P k vmar vmar_base page_size address
      placement size' alignment max_permission t"
  have p1: "placements (issued t t1) = [(first_alloc, r1)]"
    by (simp add: t1_def first_alloc_def)
  have p2: "placements (issued t (t1 @ [(retry_alloc, r2)])) = [(first_alloc, r1), (retry_alloc, r2)]"
    by (simp add: t1_def first_alloc_def retry_alloc_def)
  have shape:
    "placements (issued t (snd ?run)) = []
     \<or> (\<not> (status r1 \<noteq> ZX_OK c \<and> placement = kUseHint) \<and> ?run = (Inr r1, t1))
     \<or> (status r1 \<noteq> ZX_OK c \<and> placement = kUseHint
          \<and> ?run = (Inr r2, t1 @ [(retry_alloc, r2)]))"
  proof (cases "placement_dchecks P page_size address placement size' alignment")
    case (Some e)
    then have "?run = (Inl e, t)" by (simp add: flat)
    then show ?thesis by simp
  next
    case None
    show ?thesis
    proof (cases "GetAlignmentOptionFromAlignment c alignment = 0
                    \<or> (placement \<noteq> kAnywhere \<and> DEBUG P \<and> \<not> vmar_base \<le> address)")
      case True
      with None have "snd ?run = t" by (auto simp add: flat)
      then show ?thesis by simp
    next
      case False
      with None have
        "?run = (if status r1 \<noteq> ZX_OK c \<and> placement = kUseHint
                 then (Inr r2, t1 @ [(retry_alloc, r2)]) else (Inr r1, t1))"
        by (auto simp add: flat)
      then show ?thesis
        by (cases "status r1 \<noteq> ZX_OK c \<and> placement = kUseHint") simp_all
    qed
  qed
  then consider (early) "placements (issued t (snd ?run)) = []"
    | (single) "\<not> (status r1 \<noteq> ZX_OK c \<and> placement = kUseHint)" "?run = (Inr r1, t1)"
    | (retry) "status r1 \<noteq> ZX_OK c" "placement = kUseHint"
        "?run = (Inr r2, t1 @ [(retry_alloc, r2)])"
    by blast
  then show ?thesis
  proof cases
    case early
    then show ?thesis using assms by simp
  next
    case single
    from assms have "[(first_alloc, r1)] = (req1, rep1) # rest"
      by (simp only: single(2) snd_conv p1)
    then have e: "req1 = first_alloc" "rep1 = r1" "rest = []" by simp_all
    have f: "fst ?run = Inr r1"
      by (simp only: single(2) fst_conv)
    show ?thesis
      unfolding e f first_alloc_def opts_def
      using single(1) by auto
  next
    case retry
    from assms have "[(first_alloc, r1), (retry_alloc, r2)] = (req1, rep1) # rest"
      by (simp only: retry(3) snd_conv p2)
    then have e: "req1 = first_alloc" "rep1 = r1" "rest = [(retry_alloc, r2)]" by simp_all
    have f: "fst ?run = Inr r2"
      by (simp only: retry(3) fst_conv)
    show ?thesis
      unfolding e f first_alloc_def retry_alloc_def opts_def
      by (simp add: retry(1,2) [unfolded e])
  qed
qed



section \<open>The toy kernel at work\<close>

text \<open>
  Two runs used below: a hinted allocation and a hinted reservation on a kernel that
  refuses every request carrying \<^verbatim>\<open>ZX_VM_SPECIFIC\<close>.
\<close>

lemma GetAlign_4096: "GetAlignmentOptionFromAlignment zircon 4096 = 201326592"
proof -
  have "GetAlignmentOptionFromAlignment zircon (2 ^ 12) = push_bit (ZX_VM_ALIGN_BASE zircon) (of_nat 12)"
    by (rule GetAlignmentOption_pow2) simp_all
  then show ?thesis by (simp add: zircon_def)
qed

lemma toy_dchecks:
  "placement_dchecks (toy_process True) 4096 0x20000 kUseHint 4096 4096 = None"
  by (simp add: placement_dchecks_def DCHECK_EQ_0_mod_def DCHECK_def toy_process_def)

lemma toy_hint_refused_run:
  "AllocateInternal zircon (toy_process True) (toy_kernel refuse_specific 0) 1 0x10000 4096
     0x20000 kUseHint 4096 4096 kReadWrite [] =
   (Inr 0x10000,
    [(vmo_create 4096 0, \<lparr>status = 0, out_handle = 7, out_addr = 0, total_runtime = 0\<rparr>),
     (vmo_set_property 7 3 ''v8-virtualmem'' 13,
        \<lparr>status = 0, out_handle = 7, out_addr = 0, total_runtime = 0\<rparr>),
     (vmo_replace_as_executable 7 5,
        \<lparr>status = 0, out_handle = 7, out_addr = 0, total_runtime = 0\<rparr>),
     (vmar_map 1 201326611 0x10000 7 0 4096,
        \<lparr>status = - 4, out_handle = 0, out_addr = 0, total_runtime = 0\<rparr>),
     (vmar_map 1 201326595 0 7 0 4096,
        \<lparr>status = 0, out_handle = 0, out_addr = 0x10000, total_runtime = 0\<rparr>)])"
  apply (simp add: AllocateInternal_def toy_dchecks GetAlign_4096 invoke_eq toy_kernel_def
      kVirtualMemoryName_def DCHECK_def)
  apply (simp add: zircon_def toy_process_def invoke_eq toy_kernel_def)
  done


lemma toy_dchecks_reserve:
  "placement_dchecks (toy_process True) 4096 0x20000 kUseHint 0x4000 4096 = None"
  by (simp add: placement_dchecks_def DCHECK_EQ_0_mod_def DCHECK_def toy_process_def)

lemma toy_hint_refused_reserve:
  "CreateAddressSpaceReservationInternal zircon (toy_process True) (toy_kernel refuse_specific 0)
     1 0x10000 4096 0x20000 kUseHint 0x4000 4096 kNoAccess [] =
   (Inr \<lparr>status = 0, out_handle = 7, out_addr = 0x10000, total_runtime = 0\<rparr>,
    [(vmar_allocate 1 201327568 0x10000 0x4000,
        \<lparr>status = - 4, out_handle = 0, out_addr = 0, total_runtime = 0\<rparr>),
     (vmar_allocate 1 201327552 0 0x4000,
        \<lparr>status = 0, out_handle = 7, out_addr = 0x10000, total_runtime = 0\<rparr>)])"
  apply (simp add: CreateAddressSpaceReservationInternal_def toy_dchecks_reserve GetAlign_4096
      invoke_eq toy_kernel_def DCHECK_def)
  apply (simp add: zircon_def toy_process_def invoke_eq toy_kernel_def)
  done


section \<open>The placement protocol\<close>

text \<open>
  Claim C1. Take the placement requests (\<^verbatim>\<open>vmar.map\<close>, \<^verbatim>\<open>vmar.allocate\<close>) that one call of
  \<^verbatim>\<open>AllocateInternal\<close> or of \<^verbatim>\<open>CreateAddressSpaceReservationInternal\<close> issues, and suppose
  there is a first one. It carries the protection or creation bits with the alignment
  class, and under \<^verbatim>\<open>kUseHint\<close> and \<^verbatim>\<open>kFixed\<close> also \<^verbatim>\<open>ZX_VM_SPECIFIC\<close> and the offset of the
  address. If it fails and the mode is \<^verbatim>\<open>kUseHint\<close>, exactly one more request follows: the
  same region, memory object and size, the same options with \<^verbatim>\<open>ZX_VM_SPECIFIC\<close> cleared,
  and offset 0; the call returns what that retry gives (\<^verbatim>\<open>nullptr\<close>, or the failing
  status, when it fails too). In every other case no request follows the first one, and
  the call returns its outcome: under \<^verbatim>\<open>kFixed\<close> and \<^verbatim>\<open>kAnywhere\<close> a failure of the first
  request is the failure of the call.
\<close>

theorem placement_engine_single_retry:
  "(placements (issued t (snd (AllocateInternal c P k vmar vmar_base page_size address
              placement size' alignment access t))) = (req1, rep1) # rest
    \<longrightarrow> (\<exists>vmo.
     req1 = vmar_map vmar
              (if placement = kAnywhere
               then GetProtectionFromMemoryPermission c access OR GetAlignmentOptionFromAlignment c alignment
               else (GetProtectionFromMemoryPermission c access OR GetAlignmentOptionFromAlignment c alignment)
                      OR ZX_VM_SPECIFIC c)
              (if placement = kAnywhere then 0 else address - vmar_base) vmo 0 size'
     \<and> (if status rep1 \<noteq> ZX_OK c \<and> placement = kUseHint
        then \<exists>rep2. rest = [(vmar_map vmar
                              (((GetProtectionFromMemoryPermission c access
                                 OR GetAlignmentOptionFromAlignment c alignment)
                                 OR ZX_VM_SPECIFIC c) AND NOT (ZX_VM_SPECIFIC c))
                              0 vmo 0 size', rep2)]
                 \<and> fst (AllocateInternal c P k vmar vmar_base page_size address
                          placement size' alignment access t)
                     = Inr (if status rep2 = ZX_OK c then out_addr rep2 else 0)
        else rest = []
           \<and> fst (AllocateInternal c P k vmar vmar_base page_size address
                    placement size' alignment access t)
               = Inr (if status rep1 = ZX_OK c then out_addr rep1 else 0))))
   \<and> (placements (issued t (snd (CreateAddressSpaceReservationInternal c P k vmar vmar_base
              page_size address placement size' alignment max_permission t))) = (req1', rep1') # rest'
    \<longrightarrow>
      req1' = vmar_allocate vmar
              (if placement = kAnywhere
               then (ZX_VM_CAN_MAP_READ c OR ZX_VM_CAN_MAP_WRITE c OR ZX_VM_CAN_MAP_EXECUTE c
                       OR ZX_VM_CAN_MAP_SPECIFIC c) OR GetAlignmentOptionFromAlignment c alignment
               else ((ZX_VM_CAN_MAP_READ c OR ZX_VM_CAN_MAP_WRITE c OR ZX_VM_CAN_MAP_EXECUTE c
                       OR ZX_VM_CAN_MAP_SPECIFIC c) OR GetAlignmentOptionFromAlignment c alignment)
                      OR ZX_VM_SPECIFIC c)
              (if placement = kAnywhere then 0 else address - vmar_base) size'
     \<and> (if status rep1' \<noteq> ZX_OK c \<and> placement = kUseHint
        then \<exists>rep2. rest' = [(vmar_allocate vmar
                              ((((ZX_VM_CAN_MAP_READ c OR ZX_VM_CAN_MAP_WRITE c
                                   OR ZX_VM_CAN_MAP_EXECUTE c OR ZX_VM_CAN_MAP_SPECIFIC c)
                                 OR GetAlignmentOptionFromAlignment c alignment)
                                 OR ZX_VM_SPECIFIC c) AND NOT (ZX_VM_SPECIFIC c))
                              0 size', rep2)]
                 \<and> fst (CreateAddressSpaceReservationInternal c P k vmar vmar_base page_size
                          address placement size' alignment max_permission t) = Inr rep2
        else rest' = []
           \<and> fst (CreateAddressSpaceReservationInternal c P k vmar vmar_base page_size
                    address placement size' alignment max_permission t) = Inr rep1'))"
  using AllocateInternal_placements [of t c P k vmar vmar_base page_size address placement size'
      alignment access req1 rep1 rest]
    CreateAddressSpaceReservationInternal_placements [of t c P k vmar vmar_base page_size address
      placement size' alignment max_permission req1' rep1' rest']
  by blast


text \<open>
  On the refusing kernel a hinted allocation and a hinted reservation each issue the
  hinted request, then the retry without \<^verbatim>\<open>ZX_VM_SPECIFIC\<close> (bit 16), and succeed at the
  address the kernel chose.
\<close>

theorem placement_engine_single_retry_witness:
  "placements (issued [] (snd (AllocateInternal zircon (toy_process True)
       (toy_kernel refuse_specific 0) 1 0x10000 4096 0x20000 kUseHint 4096 4096 kReadWrite [])))
     = [(vmar_map 1 201326611 0x10000 7 0 4096,
          \<lparr>status = - 4, out_handle = 0, out_addr = 0, total_runtime = 0\<rparr>),
        (vmar_map 1 201326595 0 7 0 4096,
          \<lparr>status = 0, out_handle = 0, out_addr = 0x10000, total_runtime = 0\<rparr>)]
   \<and> fst (AllocateInternal zircon (toy_process True)
       (toy_kernel refuse_specific 0) 1 0x10000 4096 0x20000 kUseHint 4096 4096 kReadWrite [])
     = Inr 0x10000
   \<and> placements (issued [] (snd (CreateAddressSpaceReservationInternal zircon (toy_process True)
       (toy_kernel refuse_specific 0) 1 0x10000 4096 0x20000 kUseHint 0x4000 4096 kNoAccess [])))
     = [(vmar_allocate 1 201327568 0x10000 0x4000,
          \<lparr>status = - 4, out_handle = 0, out_addr = 0, total_runtime = 0\<rparr>),
        (vmar_allocate 1 201327552 0 0x4000,
          \<lparr>status = 0, out_handle = 7, out_addr = 0x10000, total_runtime = 0\<rparr>)]
   \<and> fst (CreateAddressSpaceReservationInternal zircon (toy_process True)
       (toy_kernel refuse_specific 0) 1 0x10000 4096 0x20000 kUseHint 0x4000 4096 kNoAccess [])
     = Inr \<lparr>status = 0, out_handle = 7, out_addr = 0x10000, total_runtime = 0\<rparr>"
proof -
  let ?fail = "\<lparr>status = - 4, out_handle = 0, out_addr = 0, total_runtime = 0\<rparr> :: zx_reply"
  let ?runA = "AllocateInternal zircon (toy_process True)
       (toy_kernel refuse_specific 0) 1 0x10000 4096 0x20000 kUseHint 4096 4096 kReadWrite []"
  let ?runR = "CreateAddressSpaceReservationInternal zircon (toy_process True)
       (toy_kernel refuse_specific 0) 1 0x10000 4096 0x20000 kUseHint 0x4000 4096 kNoAccess []"
  have hA: "placements (issued [] (snd ?runA))
     = (vmar_map 1 201326611 0x10000 7 0 4096, ?fail)
       # [(vmar_map 1 201326595 0 7 0 4096,
          \<lparr>status = 0, out_handle = 0, out_addr = 0x10000, total_runtime = 0\<rparr>)]"
    by (simp add: toy_hint_refused_run issued_def)
  have hR: "placements (issued [] (snd ?runR))
     = (vmar_allocate 1 201327568 0x10000 0x4000, ?fail)
       # [(vmar_allocate 1 201327552 0 0x4000,
          \<lparr>status = 0, out_handle = 7, out_addr = 0x10000, total_runtime = 0\<rparr>)]"
    by (simp add: toy_hint_refused_reserve issued_def)
  note thA = placement_engine_single_retry [where t = "[]" and c = zircon
      and P = "toy_process True" and k = "toy_kernel refuse_specific 0" and vmar = 1
      and vmar_base = "0x10000" and page_size = 4096 and address = "0x20000"
      and placement = kUseHint and size' = 4096 and alignment = 4096 and access = kReadWrite,
      THEN conjunct1, rule_format, OF hA]
  note thR = placement_engine_single_retry [where t = "[]" and c = zircon
      and P = "toy_process True" and k = "toy_kernel refuse_specific 0" and vmar = 1
      and vmar_base = "0x10000" and page_size = 4096 and address = "0x20000"
      and placement = kUseHint and size' = "0x4000" and alignment = 4096
      and max_permission = kNoAccess,
      THEN conjunct2, rule_format, OF hR]
  have fail: "status ?fail \<noteq> ZX_OK zircon" by (simp add: zircon_def)
  from thA fail have fA: "fst ?runA = Inr 0x10000" by (auto simp: zircon_def)
  from thR fail have fR: "fst ?runR
      = Inr \<lparr>status = 0, out_handle = 7, out_addr = 0x10000, total_runtime = 0\<rparr>"
    by (auto simp: zircon_def)
  show ?thesis using hA fA hR fR by simp
qed



section \<open>The executable upgrade\<close>

text \<open>
  Claim C2. Let the opening \<^verbatim>\<open>DCHECK\<close>s pass (or be compiled out) and \<^verbatim>\<open>zx::vmo::create\<close>
  succeed. Then, whatever access level is asked for, the first three requests of
  \<^verbatim>\<open>AllocateInternal\<close> are the creation, the naming and \<^verbatim>\<open>replace_as_executable\<close> on the
  handle just created, with \<^verbatim>\<open>g_vmex_resource\<close>; and if that upgrade fails, nothing more
  is requested and the call returns \<^verbatim>\<open>nullptr\<close>.
\<close>

theorem executable_upgrade_always_attempted:
  assumes pre: "placement_dchecks P page_size address placement size' alignment = None"
    and created: "status (k t (vmo_create size' 0)) = ZX_OK c"
  shows "\<exists>r1 r2 r3 after.
      snd (AllocateInternal c P k vmar vmar_base page_size address placement size' alignment
             access t)
        = t @ [(vmo_create size' 0, r1),
               (vmo_set_property (out_handle r1) (ZX_PROP_NAME c) kVirtualMemoryName
                  (of_nat (length kVirtualMemoryName)), r2),
               (vmo_replace_as_executable (out_handle r1) (g_vmex_resource P), r3)] @ after
      \<and> (status r3 \<noteq> ZX_OK c \<longrightarrow>
            after = []
          \<and> fst (AllocateInternal c P k vmar vmar_base page_size address placement size'
                   alignment access t) = Inr 0)"
proof -
  define r1 where "r1 = k t (vmo_create size' 0)"
  define t1 where "t1 = t @ [(vmo_create size' 0, r1)]"
  define r2 where "r2 = k t1 (vmo_set_property (out_handle r1) (ZX_PROP_NAME c) kVirtualMemoryName
                      (of_nat (length kVirtualMemoryName)))"
  define t2 where "t2 = t1 @ [(vmo_set_property (out_handle r1) (ZX_PROP_NAME c) kVirtualMemoryName
                      (of_nat (length kVirtualMemoryName)), r2)]"
  define r3 where "r3 = k t2 (vmo_replace_as_executable (out_handle r1) (g_vmex_resource P))"
  define t3 where "t3 = t2 @ [(vmo_replace_as_executable (out_handle r1) (g_vmex_resource P), r3)]"
  define opts where "opts = GetProtectionFromMemoryPermission c access
                  OR GetAlignmentOptionFromAlignment c alignment"
  define first_map where "first_map = vmar_map vmar
                  (if placement = kAnywhere then opts else opts OR ZX_VM_SPECIFIC c)
                  (if placement = kAnywhere then 0 else address - vmar_base)
                  (out_handle r3) 0 size'"
  define r4 where "r4 = k t3 first_map"
  define t4 where "t4 = t3 @ [(first_map, r4)]"
  define retry_map where "retry_map = vmar_map vmar
                  ((opts OR ZX_VM_SPECIFIC c) AND NOT (ZX_VM_SPECIFIC c)) 0 (out_handle r3) 0 size'"
  define r5 where "r5 = k t4 retry_map"
  note flat = AllocateInternal_flat [OF r1_def t1_def r2_def t2_def r3_def t3_def opts_def
      first_map_def r4_def t4_def retry_map_def r5_def]
  let ?run = "AllocateInternal c P k vmar vmar_base page_size address placement size' alignment
      access t"
  let ?three = "[(vmo_create size' 0, r1),
               (vmo_set_property (out_handle r1) (ZX_PROP_NAME c) kVirtualMemoryName
                  (of_nat (length kVirtualMemoryName)), r2),
               (vmo_replace_as_executable (out_handle r1) (g_vmex_resource P), r3)]"
  have ok1: "status r1 = ZX_OK c" using created by (simp add: r1_def)
  have t3': "t3 = t @ ?three" by (simp add: t3_def t2_def t1_def)
  have run: "?run =
     (if status r3 \<noteq> ZX_OK c then (Inr 0, t3)
      else if GetAlignmentOptionFromAlignment c alignment = 0 then (Inl CheckFailed, t3)
      else if placement \<noteq> kAnywhere \<and> DEBUG P \<and> \<not> vmar_base \<le> address
        then (Inl DcheckFailed, t3)
      else if status r4 \<noteq> ZX_OK c \<and> placement = kUseHint
        then (Inr (if status r5 = ZX_OK c then out_addr r5 else 0), t4 @ [(retry_map, r5)])
      else (Inr (if status r4 = ZX_OK c then out_addr r4 else 0), t4))"
    by (simp add: flat pre ok1)
  have "\<exists>after. snd ?run = t @ ?three @ after
      \<and> (status r3 \<noteq> ZX_OK c \<longrightarrow> after = [] \<and> fst ?run = Inr 0)"
  proof (cases "status r3 \<noteq> ZX_OK c")
    case True
    then have "?run = (Inr 0, t3)" by (simp add: run)
    then show ?thesis by (intro exI [of _ "[]"]) (simp add: t3')
  next
    case ok3: False
    show ?thesis
    proof (cases "GetAlignmentOptionFromAlignment c alignment = 0
                    \<or> (placement \<noteq> kAnywhere \<and> DEBUG P \<and> \<not> vmar_base \<le> address)")
      case True
      have "snd ?run = t3" unfolding run using True ok3 by auto
      with ok3 show ?thesis by (intro exI [of _ "[]"]) (simp add: t3')
    next
      case False
      show ?thesis
      proof (cases "status r4 \<noteq> ZX_OK c \<and> placement = kUseHint")
        case True
        have "snd ?run = t4 @ [(retry_map, r5)]" unfolding run using True False ok3 by auto
        with ok3 show ?thesis
          by (intro exI [of _ "[(first_map, r4), (retry_map, r5)]"]) (simp add: t4_def t3')
      next
        case no_retry: False
        have "snd ?run = t4" unfolding run using no_retry False ok3 by auto
        with ok3 show ?thesis
          by (intro exI [of _ "[(first_map, r4)]"]) (simp add: t4_def t3')
      qed
    qed
  qed
  then show ?thesis by blast
qed



text \<open>A read-write allocation on a kernel that refuses the upgrade returns \<^verbatim>\<open>nullptr\<close>.\<close>

lemma toy_upgrade_refused_run:
  "AllocateInternal zircon (toy_process True) (toy_kernel refuse_executable 0) 1 0x10000 4096
     0x20000 kUseHint 4096 4096 kReadWrite [] =
   (Inr 0,
    [(vmo_create 4096 0, \<lparr>status = 0, out_handle = 7, out_addr = 0, total_runtime = 0\<rparr>),
     (vmo_set_property 7 3 ''v8-virtualmem'' 13,
        \<lparr>status = 0, out_handle = 7, out_addr = 0, total_runtime = 0\<rparr>),
     (vmo_replace_as_executable 7 5,
        \<lparr>status = - 4, out_handle = 0, out_addr = 0, total_runtime = 0\<rparr>)])"
  apply (simp add: AllocateInternal_def toy_dchecks GetAlign_4096 invoke_eq toy_kernel_def
      kVirtualMemoryName_def DCHECK_def)
  apply (simp add: zircon_def toy_process_def invoke_eq toy_kernel_def)
  done

theorem executable_upgrade_always_attempted_witness:
  "placement_dchecks (toy_process True) 4096 0x20000 kUseHint 4096 4096 = None
   \<and> status (toy_kernel refuse_executable 0 [] (vmo_create 4096 0)) = ZX_OK zircon
   \<and> snd (AllocateInternal zircon (toy_process True) (toy_kernel refuse_executable 0) 1 0x10000
            4096 0x20000 kUseHint 4096 4096 kReadWrite [])
       = [(vmo_create 4096 0, \<lparr>status = 0, out_handle = 7, out_addr = 0, total_runtime = 0\<rparr>),
          (vmo_set_property 7 3 ''v8-virtualmem'' 13,
            \<lparr>status = 0, out_handle = 7, out_addr = 0, total_runtime = 0\<rparr>),
          (vmo_replace_as_executable 7 5,
            \<lparr>status = - 4, out_handle = 0, out_addr = 0, total_runtime = 0\<rparr>)]
   \<and> fst (AllocateInternal zircon (toy_process True) (toy_kernel refuse_executable 0) 1 0x10000
            4096 0x20000 kUseHint 4096 4096 kReadWrite []) = Inr 0"
proof -
  let ?run = "AllocateInternal zircon (toy_process True) (toy_kernel refuse_executable 0) 1
      0x10000 4096 0x20000 kUseHint 4096 4096 kReadWrite []"
  have created: "status (toy_kernel refuse_executable 0 [] (vmo_create 4096 0)) = ZX_OK zircon"
    by (simp add: toy_kernel_def zircon_def)
  have events: "snd ?run
       = [(vmo_create 4096 0, \<lparr>status = 0, out_handle = 7, out_addr = 0, total_runtime = 0\<rparr>),
          (vmo_set_property 7 3 ''v8-virtualmem'' 13,
            \<lparr>status = 0, out_handle = 7, out_addr = 0, total_runtime = 0\<rparr>),
          (vmo_replace_as_executable 7 5,
            \<lparr>status = - 4, out_handle = 0, out_addr = 0, total_runtime = 0\<rparr>)]"
    by (simp add: toy_upgrade_refused_run)
  from executable_upgrade_always_attempted [where k = "toy_kernel refuse_executable 0"
      and t = "[]" and c = zircon and P = "toy_process True" and vmar = 1
      and vmar_base = "0x10000" and access = kReadWrite, OF toy_dchecks created]
  obtain r1 r2 r3 after where
    shape: "snd ?run = [] @ [(vmo_create 4096 0, r1),
               (vmo_set_property (out_handle r1) (ZX_PROP_NAME zircon) kVirtualMemoryName
                  (of_nat (length kVirtualMemoryName)), r2),
               (vmo_replace_as_executable (out_handle r1) (g_vmex_resource (toy_process True)),
                  r3)] @ after"
    and null: "status r3 \<noteq> ZX_OK zircon \<longrightarrow> after = [] \<and> fst ?run = Inr 0"
    by blast
  from shape events have "r3 = \<lparr>status = - 4, out_handle = 0, out_addr = 0, total_runtime = 0\<rparr>"
    by simp
  then have "status r3 \<noteq> ZX_OK zircon" by (simp add: zircon_def)
  with null have "fst ?run = Inr 0" by simp
  with toy_dchecks created events show ?thesis by simp
qed



section \<open>Decommitting pages\<close>

lemma SetPermissionsInternal_run:
  assumes "DEBUG P \<Longrightarrow> page_size \<noteq> 0 \<and> address mod page_size = 0 \<and> size' mod page_size = 0"
  shows "SetPermissionsInternal c P k vmar page_size address size' access t =
     (Inr (status (k t (vmar_protect vmar (GetProtectionFromMemoryPermission c access)
                           address size')) = ZX_OK c),
      t @ [(vmar_protect vmar (GetProtectionFromMemoryPermission c access) address size',
            k t (vmar_protect vmar (GetProtectionFromMemoryPermission c access)
                   address size'))])"
  using assms
  by (cases "DEBUG P") (simp_all add: SetPermissionsInternal_def DCHECK_EQ_0_mod_def invoke_eq Let_def)

lemma DiscardSystemPagesInternal_run:
  assumes "DEBUG P \<Longrightarrow> page_size \<noteq> 0 \<and> address mod page_size = 0 \<and> size' mod page_size = 0"
  shows "DiscardSystemPagesInternal c P k vmar page_size address size' t =
     (Inr (status (k t (vmar_op_range vmar (ZX_VMO_OP_DECOMMIT c) address size' 0 0)) = ZX_OK c),
      t @ [(vmar_op_range vmar (ZX_VMO_OP_DECOMMIT c) address size' 0 0,
            k t (vmar_op_range vmar (ZX_VMO_OP_DECOMMIT c) address size' 0 0))])"
  using assms
  by (cases "DEBUG P")
     (simp_all add: DiscardSystemPagesInternal_def DCHECK_EQ_0_mod_def invoke_eq Let_def)


text \<open>
  Claim C3. For a page-aligned address and size (and, on a reservation, a range that
  passes \<^verbatim>\<open>Contains\<close>), \<^verbatim>\<open>DecommitPages\<close> first asks \<^verbatim>\<open>vmar.protect\<close> for no permissions
  (that is \<^verbatim>\<open>SetPermissions\<close> with \<^verbatim>\<open>kNoAccess\<close>), and only if that succeeds asks
  \<^verbatim>\<open>vmar.op_range\<close> for \<^verbatim>\<open>ZX_VMO_OP_DECOMMIT\<close> (that is \<^verbatim>\<open>DiscardSystemPages\<close>). It returns true
  exactly when both requests succeed. When the second fails, the history ends with the
  successful \<^verbatim>\<open>protect\<close> and the failed \<^verbatim>\<open>op_range\<close>: no request restores the permissions.
  The same holds on the root region (\<^verbatim>\<open>OS\<close>) and on a reservation.
\<close>

theorem decommit_is_protect_then_discard:
  assumes aligned:
    "DEBUG P \<Longrightarrow> CommitPageSize P \<noteq> 0 \<and> address mod CommitPageSize P = 0
                  \<and> size' mod CommitPageSize P = 0"
  shows
   "(let protect = vmar_protect (root_self P) 0 address size';
         r1 = k t protect;
         t1 = t @ [(protect, r1)];
         discard = vmar_op_range (root_self P) (ZX_VMO_OP_DECOMMIT c) address size' 0 0;
         r2 = k t1 discard
     in OS_SetPermissions c P k address size' kNoAccess t = (Inr (status r1 = ZX_OK c), t1)
      \<and> OS_DiscardSystemPages c P k address size' t1
          = (Inr (status r2 = ZX_OK c), t1 @ [(discard, r2)])
      \<and> OS_DecommitPages c P k address size' t
          = (if status r1 = ZX_OK c then (Inr (status r2 = ZX_OK c), t1 @ [(discard, r2)])
             else (Inr False, t1))
      \<and> (fst (OS_DecommitPages c P k address size' t) = Inr True)
          = (status r1 = ZX_OK c \<and> status r2 = ZX_OK c))
    \<and> ((DEBUG P \<longrightarrow> Contains P r address size') \<longrightarrow>
       (let protect = vmar_protect (asr_vmar r) 0 address size';
            r1 = k t protect;
            t1 = t @ [(protect, r1)];
            discard = vmar_op_range (asr_vmar r) (ZX_VMO_OP_DECOMMIT c) address size' 0 0;
            r2 = k t1 discard
        in AddressSpaceReservation_SetPermissions c P k r address size' kNoAccess t
             = (Inr (status r1 = ZX_OK c), t1)
         \<and> AddressSpaceReservation_DiscardSystemPages c P k r address size' t1
             = (Inr (status r2 = ZX_OK c), t1 @ [(discard, r2)])
         \<and> AddressSpaceReservation_DecommitPages c P k r address size' t
             = (if status r1 = ZX_OK c then (Inr (status r2 = ZX_OK c), t1 @ [(discard, r2)])
                else (Inr False, t1))
         \<and> (fst (AddressSpaceReservation_DecommitPages c P k r address size' t) = Inr True)
             = (status r1 = ZX_OK c \<and> status r2 = ZX_OK c)))"
proof (intro conjI impI)
  show "let protect = vmar_protect (root_self P) 0 address size';
         r1 = k t protect;
         t1 = t @ [(protect, r1)];
         discard = vmar_op_range (root_self P) (ZX_VMO_OP_DECOMMIT c) address size' 0 0;
         r2 = k t1 discard
     in OS_SetPermissions c P k address size' kNoAccess t = (Inr (status r1 = ZX_OK c), t1)
      \<and> OS_DiscardSystemPages c P k address size' t1
          = (Inr (status r2 = ZX_OK c), t1 @ [(discard, r2)])
      \<and> OS_DecommitPages c P k address size' t
          = (if status r1 = ZX_OK c then (Inr (status r2 = ZX_OK c), t1 @ [(discard, r2)])
             else (Inr False, t1))
      \<and> (fst (OS_DecommitPages c P k address size' t) = Inr True)
          = (status r1 = ZX_OK c \<and> status r2 = ZX_OK c)"
    by (simp add: Let_def OS_DecommitPages_def OS_SetPermissions_def OS_DiscardSystemPages_def
        SetPermissionsInternal_run [OF aligned] DiscardSystemPagesInternal_run [OF aligned])
next
  assume inside: "DEBUG P \<longrightarrow> Contains P r address size'"
  then have dcheck: "DCHECK P (Contains P r address size') = None"
    by (simp add: DCHECK_def)
  show "let protect = vmar_protect (asr_vmar r) 0 address size';
            r1 = k t protect;
            t1 = t @ [(protect, r1)];
            discard = vmar_op_range (asr_vmar r) (ZX_VMO_OP_DECOMMIT c) address size' 0 0;
            r2 = k t1 discard
        in AddressSpaceReservation_SetPermissions c P k r address size' kNoAccess t
             = (Inr (status r1 = ZX_OK c), t1)
         \<and> AddressSpaceReservation_DiscardSystemPages c P k r address size' t1
             = (Inr (status r2 = ZX_OK c), t1 @ [(discard, r2)])
         \<and> AddressSpaceReservation_DecommitPages c P k r address size' t
             = (if status r1 = ZX_OK c then (Inr (status r2 = ZX_OK c), t1 @ [(discard, r2)])
                else (Inr False, t1))
         \<and> (fst (AddressSpaceReservation_DecommitPages c P k r address size' t) = Inr True)
             = (status r1 = ZX_OK c \<and> status r2 = ZX_OK c)"
    by (simp add: Let_def AddressSpaceReservation_DecommitPages_def
        AddressSpaceReservation_SetPermissions_def
        AddressSpaceReservation_DiscardSystemPages_def dcheck
        SetPermissionsInternal_run [OF aligned] DiscardSystemPagesInternal_run [OF aligned])
qed



text \<open>
  On a kernel that refuses to decommit, both variants return false after a successful
  \<^verbatim>\<open>protect\<close> and a failed \<^verbatim>\<open>op_range\<close>.
\<close>

theorem decommit_is_protect_then_discard_witness:
  "CommitPageSize (toy_process True) \<noteq> 0
   \<and> (0x10000 :: 64 word) mod CommitPageSize (toy_process True) = 0
   \<and> (0x1000 :: 64 word) mod CommitPageSize (toy_process True) = 0
   \<and> Contains (toy_process True) toy_reservation 0x10000 0x1000
   \<and> OS_DecommitPages zircon (toy_process True) (toy_kernel refuse_decommit 0) 0x10000 0x1000 []
       = (Inr False,
          [(vmar_protect 1 0 0x10000 0x1000,
              \<lparr>status = 0, out_handle = 7, out_addr = 0, total_runtime = 0\<rparr>),
           (vmar_op_range 1 2 0x10000 0x1000 0 0,
              \<lparr>status = - 4, out_handle = 0, out_addr = 0, total_runtime = 0\<rparr>)])
   \<and> AddressSpaceReservation_DecommitPages zircon (toy_process True)
         (toy_kernel refuse_decommit 0) toy_reservation 0x10000 0x1000 []
       = (Inr False,
          [(vmar_protect 7 0 0x10000 0x1000,
              \<lparr>status = 0, out_handle = 7, out_addr = 0, total_runtime = 0\<rparr>),
           (vmar_op_range 7 2 0x10000 0x1000 0 0,
              \<lparr>status = - 4, out_handle = 0, out_addr = 0, total_runtime = 0\<rparr>)])"
proof -
  have aligned: "CommitPageSize (toy_process True) \<noteq> 0
      \<and> (0x10000 :: 64 word) mod CommitPageSize (toy_process True) = 0
      \<and> (0x1000 :: 64 word) mod CommitPageSize (toy_process True) = 0"
    by (simp add: toy_process_def)
  have inside: "Contains (toy_process True) toy_reservation 0x10000 0x1000"
    by (simp add: toy_process_def contains_def toy_reservation_def)
  note th = decommit_is_protect_then_discard [where P = "toy_process True" and c = zircon
      and k = "toy_kernel refuse_decommit 0" and t = "[]" and address = "0x10000"
      and size' = "0x1000" and r = toy_reservation, OF aligned]
  have os: "OS_DecommitPages zircon (toy_process True) (toy_kernel refuse_decommit 0)
      0x10000 0x1000 []
       = (Inr False,
          [(vmar_protect 1 0 0x10000 0x1000,
              \<lparr>status = 0, out_handle = 7, out_addr = 0, total_runtime = 0\<rparr>),
           (vmar_op_range 1 2 0x10000 0x1000 0 0,
              \<lparr>status = - 4, out_handle = 0, out_addr = 0, total_runtime = 0\<rparr>)])"
    using th [THEN conjunct1]
    by (simp add: Let_def toy_kernel_def zircon_def toy_process_def)
  have res: "AddressSpaceReservation_DecommitPages zircon (toy_process True)
         (toy_kernel refuse_decommit 0) toy_reservation 0x10000 0x1000 []
       = (Inr False,
          [(vmar_protect 7 0 0x10000 0x1000,
              \<lparr>status = 0, out_handle = 7, out_addr = 0, total_runtime = 0\<rparr>),
           (vmar_op_range 7 2 0x10000 0x1000 0 0,
              \<lparr>status = - 4, out_handle = 0, out_addr = 0, total_runtime = 0\<rparr>)])"
    using th [THEN conjunct2, rule_format, OF inside]
    by (simp add: Let_def toy_kernel_def zircon_def toy_reservation_def)
  show ?thesis using aligned inside os res by (intro conjI) simp_all
qed



section \<open>Allocating inside a reservation\<close>


lemma retry_keeps_bits:
  assumes "s AND f = (0 :: 'a::len word)"
  shows "((((f OR a) OR s) AND NOT s) AND f) = f"
proof (rule bit_eqI)
  fix n
  assume pb: "possible_bit TYPE('a word) n"
  have "\<not> (bit s n \<and> bit f n)"
  proof
    assume "bit s n \<and> bit f n"
    then have "bit (s AND f) n" by (simp add: bit_simps)
    then show False by (simp add: assms)
  qed
  then show "bit ((((f OR a) OR s) AND NOT s) AND f) n = bit f n"
    using pb by (auto simp: bit_simps)
qed
















section \<open>Placement at the root\<close>

lemma OS_Allocate_placement:
  "OS_Allocate c P k address size' alignment access t
     = AllocateInternal c P k (root_self P) (g_root_vmar_base P) (AllocatePageSize P) address
         (if address = 0 then kAnywhere else kUseHint) size' alignment access t"
  by (simp add: OS_Allocate_def)

lemma OS_CreateAddressSpaceReservation_run:
  "OS_CreateAddressSpaceReservation c P k hint size' alignment max_permission t =
     (case DCHECK_EQ_0_mod P hint alignment of
        Some e \<Rightarrow> (Inl e, t)
      | None \<Rightarrow>
        (case fst (CreateAddressSpaceReservationInternal c P k (root_self P) (g_root_vmar_base P)
                     (AllocatePageSize P) hint (if hint = 0 then kAnywhere else kUseHint) size'
                     alignment max_permission t) of
           Inl e \<Rightarrow> Inl e
         | Inr rep \<Rightarrow>
             Inr (if status rep = ZX_OK c
                  then Some \<lparr> asr_base = out_addr rep, asr_size = size', asr_vmar = out_handle rep \<rparr>
                  else None),
         snd (CreateAddressSpaceReservationInternal c P k (root_self P) (g_root_vmar_base P)
                     (AllocatePageSize P) hint (if hint = 0 then kAnywhere else kUseHint) size'
                     alignment max_permission t)))"
  by (simp add: OS_CreateAddressSpaceReservation_def split: option.split prod.split sum.split)


text \<open>
  Claim C9. \<^verbatim>\<open>OS::Allocate\<close> runs \<^verbatim>\<open>AllocateInternal\<close> on the root region with \<^verbatim>\<open>kAnywhere\<close>
  for a null address and \<^verbatim>\<open>kUseHint\<close> otherwise, never \<^verbatim>\<open>kFixed\<close>; and
  \<^verbatim>\<open>OS::CreateAddressSpaceReservation\<close>, once its \<^verbatim>\<open>DCHECK\<close> on the hint has passed, runs
  \<^verbatim>\<open>CreateAddressSpaceReservationInternal\<close> on the root region with the mode chosen the
  same way from its hint: it has that call's history, and wraps the child region in a
  reservation when the status is \<^verbatim>\<open>ZX_OK\<close>. So
  take the placement requests one such call issues, and suppose there is a first one.
  With a null address it carries no offset and \<^verbatim>\<open>ZX_VM_SPECIFIC\<close> is not added; it is the
  only one. With a non-null address it carries \<^verbatim>\<open>ZX_VM_SPECIFIC\<close> and the offset from
  \<^verbatim>\<open>g_root_vmar_base\<close>, and if it fails the call does not fail with it: one retry
  follows, without \<^verbatim>\<open>ZX_VM_SPECIFIC\<close> and at offset 0, and the call returns what the retry
  gives.
\<close>

theorem root_facade_never_fixed:
  "OS_Allocate c P k address size' alignment access t
     = AllocateInternal c P k (root_self P) (g_root_vmar_base P) (AllocatePageSize P) address
         (if address = 0 then kAnywhere else kUseHint) size' alignment access t
   \<and> OS_CreateAddressSpaceReservation c P k hint size' alignment max_permission t =
     (case DCHECK_EQ_0_mod P hint alignment of
        Some e \<Rightarrow> (Inl e, t)
      | None \<Rightarrow>
        (case fst (CreateAddressSpaceReservationInternal c P k (root_self P) (g_root_vmar_base P)
                     (AllocatePageSize P) hint (if hint = 0 then kAnywhere else kUseHint) size'
                     alignment max_permission t) of
           Inl e \<Rightarrow> Inl e
         | Inr rep \<Rightarrow>
             Inr (if status rep = ZX_OK c
                  then Some \<lparr> asr_base = out_addr rep, asr_size = size', asr_vmar = out_handle rep \<rparr>
                  else None),
         snd (CreateAddressSpaceReservationInternal c P k (root_self P) (g_root_vmar_base P)
                     (AllocatePageSize P) hint (if hint = 0 then kAnywhere else kUseHint) size'
                     alignment max_permission t)))
   \<and> (placements (issued t (snd (OS_Allocate c P k address size' alignment access t)))
         = (req1, rep1) # rest
       \<longrightarrow> (\<exists>vmo.
             req1 = vmar_map (root_self P)
                      (if address = 0
                       then GetProtectionFromMemoryPermission c access
                              OR GetAlignmentOptionFromAlignment c alignment
                       else (GetProtectionFromMemoryPermission c access
                              OR GetAlignmentOptionFromAlignment c alignment)
                             OR ZX_VM_SPECIFIC c)
                      (if address = 0 then 0 else address - g_root_vmar_base P) vmo 0 size'
           \<and> (if status rep1 \<noteq> ZX_OK c \<and> address \<noteq> 0
              then \<exists>rep2.
                     rest = [(vmar_map (root_self P)
                                (((GetProtectionFromMemoryPermission c access
                                    OR GetAlignmentOptionFromAlignment c alignment)
                                   OR ZX_VM_SPECIFIC c) AND NOT (ZX_VM_SPECIFIC c))
                                0 vmo 0 size', rep2)]
                   \<and> fst (OS_Allocate c P k address size' alignment access t)
                       = Inr (if status rep2 = ZX_OK c then out_addr rep2 else 0)
              else rest = []
                 \<and> fst (OS_Allocate c P k address size' alignment access t)
                     = Inr (if status rep1 = ZX_OK c then out_addr rep1 else 0))))
   \<and> (placements (issued t (snd (OS_CreateAddressSpaceReservation c P k hint size' alignment
                                   max_permission t)))
         = (req1', rep1') # rest'
       \<longrightarrow>
          req1' = vmar_allocate (root_self P)
                    (if hint = 0
                     then (ZX_VM_CAN_MAP_READ c OR ZX_VM_CAN_MAP_WRITE c
                            OR ZX_VM_CAN_MAP_EXECUTE c OR ZX_VM_CAN_MAP_SPECIFIC c)
                          OR GetAlignmentOptionFromAlignment c alignment
                     else ((ZX_VM_CAN_MAP_READ c OR ZX_VM_CAN_MAP_WRITE c
                             OR ZX_VM_CAN_MAP_EXECUTE c OR ZX_VM_CAN_MAP_SPECIFIC c)
                           OR GetAlignmentOptionFromAlignment c alignment)
                          OR ZX_VM_SPECIFIC c)
                    (if hint = 0 then 0 else hint - g_root_vmar_base P) size'
        \<and> (if status rep1' \<noteq> ZX_OK c \<and> hint \<noteq> 0
           then \<exists>rep2.
                  rest' = [(vmar_allocate (root_self P)
                              ((((ZX_VM_CAN_MAP_READ c OR ZX_VM_CAN_MAP_WRITE c
                                   OR ZX_VM_CAN_MAP_EXECUTE c OR ZX_VM_CAN_MAP_SPECIFIC c)
                                  OR GetAlignmentOptionFromAlignment c alignment)
                                 OR ZX_VM_SPECIFIC c) AND NOT (ZX_VM_SPECIFIC c))
                              0 size', rep2)]
                \<and> fst (OS_CreateAddressSpaceReservation c P k hint size' alignment
                          max_permission t)
                    = Inr (if status rep2 = ZX_OK c
                           then Some \<lparr> asr_base = out_addr rep2, asr_size = size',
                                       asr_vmar = out_handle rep2 \<rparr>
                           else None)
           else rest' = []
              \<and> fst (OS_CreateAddressSpaceReservation c P k hint size' alignment
                        max_permission t)
                  = Inr (if status rep1' = ZX_OK c
                         then Some \<lparr> asr_base = out_addr rep1', asr_size = size',
                                     asr_vmar = out_handle rep1' \<rparr>
                         else None)))"
proof -
  have one: "OS_Allocate c P k address size' alignment access t
     = AllocateInternal c P k (root_self P) (g_root_vmar_base P) (AllocatePageSize P) address
         (if address = 0 then kAnywhere else kUseHint) size' alignment access t"
    by (rule OS_Allocate_placement)
  have two: "placements (issued t (snd (OS_Allocate c P k address size' alignment access t)))
         = (req1, rep1) # rest
       \<longrightarrow> (\<exists>vmo.
             req1 = vmar_map (root_self P)
                      (if address = 0
                       then GetProtectionFromMemoryPermission c access
                              OR GetAlignmentOptionFromAlignment c alignment
                       else (GetProtectionFromMemoryPermission c access
                              OR GetAlignmentOptionFromAlignment c alignment)
                             OR ZX_VM_SPECIFIC c)
                      (if address = 0 then 0 else address - g_root_vmar_base P) vmo 0 size'
           \<and> (if status rep1 \<noteq> ZX_OK c \<and> address \<noteq> 0
              then \<exists>rep2.
                     rest = [(vmar_map (root_self P)
                                (((GetProtectionFromMemoryPermission c access
                                    OR GetAlignmentOptionFromAlignment c alignment)
                                   OR ZX_VM_SPECIFIC c) AND NOT (ZX_VM_SPECIFIC c))
                                0 vmo 0 size', rep2)]
                   \<and> fst (OS_Allocate c P k address size' alignment access t)
                       = Inr (if status rep2 = ZX_OK c then out_addr rep2 else 0)
              else rest = []
                 \<and> fst (OS_Allocate c P k address size' alignment access t)
                     = Inr (if status rep1 = ZX_OK c then out_addr rep1 else 0)))"
  proof
    assume a: "placements (issued t (snd (OS_Allocate c P k address size' alignment access t)))
           = (req1, rep1) # rest"
    show "\<exists>vmo.
               req1 = vmar_map (root_self P)
                        (if address = 0
                         then GetProtectionFromMemoryPermission c access
                                OR GetAlignmentOptionFromAlignment c alignment
                         else (GetProtectionFromMemoryPermission c access
                                OR GetAlignmentOptionFromAlignment c alignment)
                               OR ZX_VM_SPECIFIC c)
                        (if address = 0 then 0 else address - g_root_vmar_base P) vmo 0 size'
             \<and> (if status rep1 \<noteq> ZX_OK c \<and> address \<noteq> 0
                then \<exists>rep2.
                       rest = [(vmar_map (root_self P)
                                  (((GetProtectionFromMemoryPermission c access
                                      OR GetAlignmentOptionFromAlignment c alignment)
                                     OR ZX_VM_SPECIFIC c) AND NOT (ZX_VM_SPECIFIC c))
                                  0 vmo 0 size', rep2)]
                     \<and> fst (OS_Allocate c P k address size' alignment access t)
                         = Inr (if status rep2 = ZX_OK c then out_addr rep2 else 0)
                else rest = []
                   \<and> fst (OS_Allocate c P k address size' alignment access t)
                       = Inr (if status rep1 = ZX_OK c then out_addr rep1 else 0))"
    proof (cases "address = 0")
      case True
      with a have "placements (issued t (snd (AllocateInternal c P k (root_self P)
          (g_root_vmar_base P) (AllocatePageSize P) address kAnywhere size' alignment access t)))
           = (req1, rep1) # rest"
        by (simp add: OS_Allocate_placement)
      from AllocateInternal_placements [OF this] True show ?thesis
        by (simp add: OS_Allocate_placement)
    next
      case False
      with a have h: "placements (issued t (snd (AllocateInternal c P k (root_self P)
          (g_root_vmar_base P) (AllocatePageSize P) address kUseHint size' alignment access t)))
           = (req1, rep1) # rest"
        by (simp add: OS_Allocate_placement)
      have eq: "OS_Allocate c P k address size' alignment access t
          = AllocateInternal c P k (root_self P) (g_root_vmar_base P) (AllocatePageSize P)
              address kUseHint size' alignment access t"
        using False by (simp add: OS_Allocate_placement)
      show ?thesis
        unfolding eq using AllocateInternal_placements [OF h] False
        by (simp split del: if_split)
    qed
  qed
  have three: "placements (issued t (snd (OS_CreateAddressSpaceReservation c P k hint size' alignment
                                   max_permission t)))
         = (req1', rep1') # rest'
       \<longrightarrow>
          req1' = vmar_allocate (root_self P)
                    (if hint = 0
                     then (ZX_VM_CAN_MAP_READ c OR ZX_VM_CAN_MAP_WRITE c
                            OR ZX_VM_CAN_MAP_EXECUTE c OR ZX_VM_CAN_MAP_SPECIFIC c)
                          OR GetAlignmentOptionFromAlignment c alignment
                     else ((ZX_VM_CAN_MAP_READ c OR ZX_VM_CAN_MAP_WRITE c
                             OR ZX_VM_CAN_MAP_EXECUTE c OR ZX_VM_CAN_MAP_SPECIFIC c)
                           OR GetAlignmentOptionFromAlignment c alignment)
                          OR ZX_VM_SPECIFIC c)
                    (if hint = 0 then 0 else hint - g_root_vmar_base P) size'
        \<and> (if status rep1' \<noteq> ZX_OK c \<and> hint \<noteq> 0
           then \<exists>rep2.
                  rest' = [(vmar_allocate (root_self P)
                              ((((ZX_VM_CAN_MAP_READ c OR ZX_VM_CAN_MAP_WRITE c
                                   OR ZX_VM_CAN_MAP_EXECUTE c OR ZX_VM_CAN_MAP_SPECIFIC c)
                                  OR GetAlignmentOptionFromAlignment c alignment)
                                 OR ZX_VM_SPECIFIC c) AND NOT (ZX_VM_SPECIFIC c))
                              0 size', rep2)]
                \<and> fst (OS_CreateAddressSpaceReservation c P k hint size' alignment
                          max_permission t)
                    = Inr (if status rep2 = ZX_OK c
                           then Some \<lparr> asr_base = out_addr rep2, asr_size = size',
                                       asr_vmar = out_handle rep2 \<rparr>
                           else None)
           else rest' = []
              \<and> fst (OS_CreateAddressSpaceReservation c P k hint size' alignment
                        max_permission t)
                  = Inr (if status rep1' = ZX_OK c
                         then Some \<lparr> asr_base = out_addr rep1', asr_size = size',
                                     asr_vmar = out_handle rep1' \<rparr>
                         else None))"
  proof
    let ?os = "OS_CreateAddressSpaceReservation c P k hint size' alignment max_permission t"
    assume a: "placements (issued t (snd ?os)) = (req1', rep1') # rest'"
    let ?mode = "if hint = 0 then kAnywhere else kUseHint"
    let ?run = "CreateAddressSpaceReservationInternal c P k (root_self P) (g_root_vmar_base P)
        (AllocatePageSize P) hint ?mode size' alignment max_permission t"
    have pass: "DCHECK_EQ_0_mod P hint alignment = None"
    proof (cases "DCHECK_EQ_0_mod P hint alignment")
      case (Some e)
      then have "snd ?os = t" by (simp add: OS_CreateAddressSpaceReservation_run)
      with a show ?thesis by simp
    qed simp
    then have s: "snd ?os = snd ?run"
      and f: "fst ?os = (case fst ?run of Inl e \<Rightarrow> Inl e
           | Inr rep \<Rightarrow> Inr (if status rep = ZX_OK c
                    then Some \<lparr> asr_base = out_addr rep, asr_size = size', asr_vmar = out_handle rep \<rparr>
                    else None))"
      by (simp_all add: OS_CreateAddressSpaceReservation_run)
    from a have b: "placements (issued t (snd ?run)) = (req1', rep1') # rest'"
      by (simp only: s)
    note shape = CreateAddressSpaceReservationInternal_placements [OF b]
    show "req1' = vmar_allocate (root_self P)
                      (if hint = 0
                       then (ZX_VM_CAN_MAP_READ c OR ZX_VM_CAN_MAP_WRITE c
                              OR ZX_VM_CAN_MAP_EXECUTE c OR ZX_VM_CAN_MAP_SPECIFIC c)
                            OR GetAlignmentOptionFromAlignment c alignment
                       else ((ZX_VM_CAN_MAP_READ c OR ZX_VM_CAN_MAP_WRITE c
                               OR ZX_VM_CAN_MAP_EXECUTE c OR ZX_VM_CAN_MAP_SPECIFIC c)
                             OR GetAlignmentOptionFromAlignment c alignment)
                            OR ZX_VM_SPECIFIC c)
                      (if hint = 0 then 0 else hint - g_root_vmar_base P) size'
          \<and> (if status rep1' \<noteq> ZX_OK c \<and> hint \<noteq> 0
             then \<exists>rep2.
                    rest' = [(vmar_allocate (root_self P)
                                ((((ZX_VM_CAN_MAP_READ c OR ZX_VM_CAN_MAP_WRITE c
                                     OR ZX_VM_CAN_MAP_EXECUTE c OR ZX_VM_CAN_MAP_SPECIFIC c)
                                    OR GetAlignmentOptionFromAlignment c alignment)
                                   OR ZX_VM_SPECIFIC c) AND NOT (ZX_VM_SPECIFIC c))
                                0 size', rep2)]
                  \<and> fst ?os
                      = Inr (if status rep2 = ZX_OK c
                             then Some \<lparr> asr_base = out_addr rep2, asr_size = size',
                                         asr_vmar = out_handle rep2 \<rparr>
                             else None)
             else rest' = []
                \<and> fst ?os
                    = Inr (if status rep1' = ZX_OK c
                           then Some \<lparr> asr_base = out_addr rep1', asr_size = size',
                                       asr_vmar = out_handle rep1' \<rparr>
                           else None))"
    proof (cases "status rep1' \<noteq> ZX_OK c \<and> hint \<noteq> 0")
      case True
      with shape obtain rep2 where
        r: "rest' = [(vmar_allocate (root_self P)
                                ((((ZX_VM_CAN_MAP_READ c OR ZX_VM_CAN_MAP_WRITE c
                                     OR ZX_VM_CAN_MAP_EXECUTE c OR ZX_VM_CAN_MAP_SPECIFIC c)
                                    OR GetAlignmentOptionFromAlignment c alignment)
                                   OR ZX_VM_SPECIFIC c) AND NOT (ZX_VM_SPECIFIC c))
                                0 size', rep2)]"
        and v: "fst ?run = Inr rep2"
        by auto
      have req: "req1' = vmar_allocate (root_self P)
                      (((ZX_VM_CAN_MAP_READ c OR ZX_VM_CAN_MAP_WRITE c
                               OR ZX_VM_CAN_MAP_EXECUTE c OR ZX_VM_CAN_MAP_SPECIFIC c)
                             OR GetAlignmentOptionFromAlignment c alignment)
                            OR ZX_VM_SPECIFIC c)
                      (hint - g_root_vmar_base P) size'"
        using shape True by simp
      have res: "fst ?os = Inr (if status rep2 = ZX_OK c
                             then Some \<lparr> asr_base = out_addr rep2, asr_size = size',
                                         asr_vmar = out_handle rep2 \<rparr>
                             else None)"
        by (simp only: f v sum.case)
      show ?thesis
        unfolding res using True r req by simp
    next
      case False
      with shape have r: "rest' = []" and v: "fst ?run = Inr rep1'"
        by (auto split: if_splits)
      have req: "req1' = vmar_allocate (root_self P)
                      (if hint = 0
                       then (ZX_VM_CAN_MAP_READ c OR ZX_VM_CAN_MAP_WRITE c
                              OR ZX_VM_CAN_MAP_EXECUTE c OR ZX_VM_CAN_MAP_SPECIFIC c)
                            OR GetAlignmentOptionFromAlignment c alignment
                       else ((ZX_VM_CAN_MAP_READ c OR ZX_VM_CAN_MAP_WRITE c
                               OR ZX_VM_CAN_MAP_EXECUTE c OR ZX_VM_CAN_MAP_SPECIFIC c)
                             OR GetAlignmentOptionFromAlignment c alignment)
                            OR ZX_VM_SPECIFIC c)
                      (if hint = 0 then 0 else hint - g_root_vmar_base P) size'"
        using shape by (cases "hint = 0") simp_all
      have res: "fst ?os = Inr (if status rep1' = ZX_OK c
                           then Some \<lparr> asr_base = out_addr rep1', asr_size = size',
                                       asr_vmar = out_handle rep1' \<rparr>
                           else None)"
        by (simp only: f v sum.case)
      show ?thesis
        unfolding res if_not_P [OF False] using r req by simp
    qed
  qed
  have reserve: "OS_CreateAddressSpaceReservation c P k hint size' alignment max_permission t =
     (case DCHECK_EQ_0_mod P hint alignment of
        Some e \<Rightarrow> (Inl e, t)
      | None \<Rightarrow>
        (case fst (CreateAddressSpaceReservationInternal c P k (root_self P) (g_root_vmar_base P)
                     (AllocatePageSize P) hint (if hint = 0 then kAnywhere else kUseHint) size'
                     alignment max_permission t) of
           Inl e \<Rightarrow> Inl e
         | Inr rep \<Rightarrow>
             Inr (if status rep = ZX_OK c
                  then Some \<lparr> asr_base = out_addr rep, asr_size = size', asr_vmar = out_handle rep \<rparr>
                  else None),
         snd (CreateAddressSpaceReservationInternal c P k (root_self P) (g_root_vmar_base P)
                     (AllocatePageSize P) hint (if hint = 0 then kAnywhere else kUseHint) size'
                     alignment max_permission t)))"
    by (rule OS_CreateAddressSpaceReservation_run)
  show ?thesis by (rule conjI [OF one conjI [OF reserve conjI [OF two three]]])
qed



text \<open>
  At the root, on the kernel that refuses \<^verbatim>\<open>ZX_VM_SPECIFIC\<close>: a hinted allocation and a
  hinted reservation both end up at the address the kernel chose. And on the kernel that
  refuses nothing, a reservation with a null hint issues one request, without
  \<^verbatim>\<open>ZX_VM_SPECIFIC\<close> and at offset 0.
\<close>

lemma toy_process_fields:
  "root_self (toy_process d) = 1"
  "g_root_vmar_base (toy_process d) = 0x10000"
  "AllocatePageSize (toy_process d) = 4096"
  "CommitPageSize (toy_process d) = 4096"
  "DEBUG (toy_process d) = d"
  by (simp_all add: toy_process_def)

lemma toy_root_hint_refused_run:
  "OS_Allocate zircon (toy_process True) (toy_kernel refuse_specific 0) 0x20000 4096 4096
     kReadWrite [] =
   (Inr 0x10000,
    [(vmo_create 4096 0, \<lparr>status = 0, out_handle = 7, out_addr = 0, total_runtime = 0\<rparr>),
     (vmo_set_property 7 3 ''v8-virtualmem'' 13,
        \<lparr>status = 0, out_handle = 7, out_addr = 0, total_runtime = 0\<rparr>),
     (vmo_replace_as_executable 7 5,
        \<lparr>status = 0, out_handle = 7, out_addr = 0, total_runtime = 0\<rparr>),
     (vmar_map 1 201326611 0x10000 7 0 4096,
        \<lparr>status = - 4, out_handle = 0, out_addr = 0, total_runtime = 0\<rparr>),
     (vmar_map 1 201326595 0 7 0 4096,
        \<lparr>status = 0, out_handle = 0, out_addr = 0x10000, total_runtime = 0\<rparr>)])"
  by (simp add: OS_Allocate_def toy_process_fields toy_hint_refused_run)

lemma toy_root_hint_refused_reserve:
  "OS_CreateAddressSpaceReservation zircon (toy_process True) (toy_kernel refuse_specific 0)
     0x20000 0x4000 4096 kNoAccess [] =
   (Inr (Some \<lparr>asr_base = 0x10000, asr_size = 0x4000, asr_vmar = 7\<rparr>),
    [(vmar_allocate 1 201327568 0x10000 0x4000,
        \<lparr>status = - 4, out_handle = 0, out_addr = 0, total_runtime = 0\<rparr>),
     (vmar_allocate 1 201327552 0 0x4000,
        \<lparr>status = 0, out_handle = 7, out_addr = 0x10000, total_runtime = 0\<rparr>)])"
proof -
  have pass: "DCHECK_EQ_0_mod (toy_process True) 0x20000 4096 = None"
    by (simp add: DCHECK_EQ_0_mod_def)
  show ?thesis
    by (simp add: OS_CreateAddressSpaceReservation_def pass toy_process_fields
        toy_hint_refused_reserve)
       (simp add: zircon_def)
qed

lemma toy_anywhere_reserve:
  "CreateAddressSpaceReservationInternal zircon (toy_process True) (toy_kernel refuse_nothing 0)
     1 0x10000 4096 0 kAnywhere 0x4000 4096 kNoAccess [] =
   (Inr \<lparr>status = 0, out_handle = 7, out_addr = 0x10000, total_runtime = 0\<rparr>,
    [(vmar_allocate 1 201327552 0 0x4000,
        \<lparr>status = 0, out_handle = 7, out_addr = 0x10000, total_runtime = 0\<rparr>)])"
proof -
  have pre: "placement_dchecks (toy_process True) 4096 0 kAnywhere 0x4000 4096 = None"
    by (simp add: placement_dchecks_def DCHECK_EQ_0_mod_def DCHECK_def toy_process_def)
  show ?thesis
    apply (simp add: CreateAddressSpaceReservationInternal_def pre GetAlign_4096
        invoke_eq toy_kernel_def DCHECK_def)
    apply (simp add: zircon_def toy_process_def invoke_eq toy_kernel_def)
    done
qed

theorem root_facade_never_fixed_witness:
  "placements (issued [] (snd (OS_Allocate zircon (toy_process True)
       (toy_kernel refuse_specific 0) 0x20000 4096 4096 kReadWrite [])))
     = [(vmar_map 1 201326611 0x10000 7 0 4096,
          \<lparr>status = - 4, out_handle = 0, out_addr = 0, total_runtime = 0\<rparr>),
        (vmar_map 1 201326595 0 7 0 4096,
          \<lparr>status = 0, out_handle = 0, out_addr = 0x10000, total_runtime = 0\<rparr>)]
   \<and> fst (OS_Allocate zircon (toy_process True)
       (toy_kernel refuse_specific 0) 0x20000 4096 4096 kReadWrite []) = Inr 0x10000
   \<and> placements (issued [] (snd (OS_CreateAddressSpaceReservation zircon (toy_process True)
       (toy_kernel refuse_specific 0) 0x20000 0x4000 4096 kNoAccess [])))
     = [(vmar_allocate 1 201327568 0x10000 0x4000,
          \<lparr>status = - 4, out_handle = 0, out_addr = 0, total_runtime = 0\<rparr>),
        (vmar_allocate 1 201327552 0 0x4000,
          \<lparr>status = 0, out_handle = 7, out_addr = 0x10000, total_runtime = 0\<rparr>)]
   \<and> fst (OS_CreateAddressSpaceReservation zircon (toy_process True)
       (toy_kernel refuse_specific 0) 0x20000 0x4000 4096 kNoAccess [])
     = Inr (Some \<lparr>asr_base = 0x10000, asr_size = 0x4000, asr_vmar = 7\<rparr>)
   \<and> OS_CreateAddressSpaceReservation zircon (toy_process True)
       (toy_kernel refuse_nothing 0) 0 0x4000 4096 kNoAccess []
     = (Inr (Some \<lparr>asr_base = 0x10000, asr_size = 0x4000, asr_vmar = 7\<rparr>),
        [(vmar_allocate 1 201327552 0 0x4000,
          \<lparr>status = 0, out_handle = 7, out_addr = 0x10000, total_runtime = 0\<rparr>)])"
proof -
  let ?fail = "\<lparr>status = - 4, out_handle = 0, out_addr = 0, total_runtime = 0\<rparr> :: zx_reply"
  let ?runA = "OS_Allocate zircon (toy_process True)
       (toy_kernel refuse_specific 0) 0x20000 4096 4096 kReadWrite []"
  let ?runR = "OS_CreateAddressSpaceReservation zircon (toy_process True)
       (toy_kernel refuse_specific 0) 0x20000 0x4000 4096 kNoAccess []"
  have hA: "placements (issued [] (snd ?runA))
     = (vmar_map 1 201326611 0x10000 7 0 4096, ?fail)
       # [(vmar_map 1 201326595 0 7 0 4096,
          \<lparr>status = 0, out_handle = 0, out_addr = 0x10000, total_runtime = 0\<rparr>)]"
    by (simp add: toy_root_hint_refused_run issued_def)
  have hR: "placements (issued [] (snd ?runR))
     = (vmar_allocate 1 201327568 0x10000 0x4000, ?fail)
       # [(vmar_allocate 1 201327552 0 0x4000,
          \<lparr>status = 0, out_handle = 7, out_addr = 0x10000, total_runtime = 0\<rparr>)]"
    by (simp add: toy_root_hint_refused_reserve issued_def)
  note thA = root_facade_never_fixed [where t = "[]" and c = zircon
      and P = "toy_process True" and k = "toy_kernel refuse_specific 0"
      and address = "0x20000" and size' = 4096 and alignment = 4096 and access = kReadWrite,
      THEN conjunct2, THEN conjunct2, THEN conjunct1, rule_format, OF hA]
  note thR = root_facade_never_fixed [where t = "[]" and c = zircon
      and P = "toy_process True" and k = "toy_kernel refuse_specific 0"
      and hint = "0x20000" and size' = "0x4000" and alignment = 4096
      and max_permission = kNoAccess,
      THEN conjunct2, THEN conjunct2, THEN conjunct2, rule_format, OF hR]
  have fail: "status ?fail \<noteq> ZX_OK zircon" by (simp add: zircon_def)
  from thA fail have fA: "fst ?runA = Inr 0x10000" by (auto simp: zircon_def)
  from thR fail have fR: "fst ?runR
      = Inr (Some \<lparr>asr_base = 0x10000, asr_size = 0x4000, asr_vmar = 7\<rparr>)"
    by (auto simp: zircon_def)
  have pass: "DCHECK_EQ_0_mod (toy_process True) 0 4096 = None"
    by (simp add: DCHECK_EQ_0_mod_def)
  have null_hint: "OS_CreateAddressSpaceReservation zircon (toy_process True)
       (toy_kernel refuse_nothing 0) 0 0x4000 4096 kNoAccess []
     = (Inr (Some \<lparr>asr_base = 0x10000, asr_size = 0x4000, asr_vmar = 7\<rparr>),
        [(vmar_allocate 1 201327552 0 0x4000,
          \<lparr>status = 0, out_handle = 7, out_addr = 0x10000, total_runtime = 0\<rparr>)])"
    using root_facade_never_fixed [where t = "[]" and c = zircon
      and P = "toy_process True" and k = "toy_kernel refuse_nothing 0"
      and hint = 0 and size' = "0x4000" and alignment = 4096
      and max_permission = kNoAccess, THEN conjunct2, THEN conjunct1]
    by (simp add: pass toy_process_fields toy_anywhere_reserve) (simp add: zircon_def)
  show ?thesis using hA fA hR fR null_hint by simp
qed



section \<open>The maximum permission of a reservation\<close>

lemma or_keeps_bits: "(f OR a) AND f = (f :: 'a::len word)"
  by (rule bit_eqI) (auto simp: bit_simps)

lemma or_or_keeps_bits: "((f OR a) OR s) AND f = (f :: 'a::len word)"
  by (rule bit_eqI) (auto simp: bit_simps)

lemma CreateAddressSpaceReservationInternal_issued:
  "\<exists>r1 r2.
     issued t (snd (CreateAddressSpaceReservationInternal c P k vmar vmar_base page_size address
                      placement size' alignment max_permission t))
     \<in> {[],
         [(vmar_allocate vmar
             (if placement = kAnywhere
              then (ZX_VM_CAN_MAP_READ c OR ZX_VM_CAN_MAP_WRITE c OR ZX_VM_CAN_MAP_EXECUTE c
                      OR ZX_VM_CAN_MAP_SPECIFIC c) OR GetAlignmentOptionFromAlignment c alignment
              else ((ZX_VM_CAN_MAP_READ c OR ZX_VM_CAN_MAP_WRITE c OR ZX_VM_CAN_MAP_EXECUTE c
                      OR ZX_VM_CAN_MAP_SPECIFIC c) OR GetAlignmentOptionFromAlignment c alignment)
                     OR ZX_VM_SPECIFIC c)
             (if placement = kAnywhere then 0 else address - vmar_base) size', r1)],
         [(vmar_allocate vmar
             (((ZX_VM_CAN_MAP_READ c OR ZX_VM_CAN_MAP_WRITE c OR ZX_VM_CAN_MAP_EXECUTE c
                      OR ZX_VM_CAN_MAP_SPECIFIC c) OR GetAlignmentOptionFromAlignment c alignment)
                     OR ZX_VM_SPECIFIC c)
             (address - vmar_base) size', r1),
          (vmar_allocate vmar
             ((((ZX_VM_CAN_MAP_READ c OR ZX_VM_CAN_MAP_WRITE c OR ZX_VM_CAN_MAP_EXECUTE c
                      OR ZX_VM_CAN_MAP_SPECIFIC c) OR GetAlignmentOptionFromAlignment c alignment)
                     OR ZX_VM_SPECIFIC c) AND NOT (ZX_VM_SPECIFIC c))
             0 size', r2)]}"
proof -
  define opts where "opts = (ZX_VM_CAN_MAP_READ c OR ZX_VM_CAN_MAP_WRITE c
      OR ZX_VM_CAN_MAP_EXECUTE c OR ZX_VM_CAN_MAP_SPECIFIC c)
      OR GetAlignmentOptionFromAlignment c alignment"
  define first_alloc where "first_alloc = vmar_allocate vmar
                  (if placement = kAnywhere then opts else opts OR ZX_VM_SPECIFIC c)
                  (if placement = kAnywhere then 0 else address - vmar_base) size'"
  define r1 where "r1 = k t first_alloc"
  define t1 where "t1 = t @ [(first_alloc, r1)]"
  define retry_alloc where "retry_alloc = vmar_allocate vmar
                  ((opts OR ZX_VM_SPECIFIC c) AND NOT (ZX_VM_SPECIFIC c)) 0 size'"
  define r2 where "r2 = k t1 retry_alloc"
  note flat = CreateAddressSpaceReservationInternal_flat [OF opts_def first_alloc_def r1_def
      t1_def retry_alloc_def r2_def]
  let ?run = "CreateAddressSpaceReservationInternal c P k vmar vmar_base page_size address
      placement size' alignment max_permission t"
  have "issued t (snd ?run) = []
      \<or> issued t (snd ?run) = [(first_alloc, r1)]
      \<or> (placement = kUseHint \<and> issued t (snd ?run) = [(first_alloc, r1), (retry_alloc, r2)])"
  proof (cases "placement_dchecks P page_size address placement size' alignment")
    case (Some e)
    then have "snd ?run = t" by (simp add: flat)
    then show ?thesis by simp
  next
    case None
    show ?thesis
    proof (cases "GetAlignmentOptionFromAlignment c alignment = 0
                    \<or> (placement \<noteq> kAnywhere \<and> DEBUG P \<and> \<not> vmar_base \<le> address)")
      case True
      with None have "snd ?run = t" by (auto simp add: flat)
      then show ?thesis by simp
    next
      case False
      with None have
        "snd ?run = (if status r1 \<noteq> ZX_OK c \<and> placement = kUseHint
                 then t1 @ [(retry_alloc, r2)] else t1)"
        by (auto simp add: flat)
      then show ?thesis
        by (cases "status r1 \<noteq> ZX_OK c \<and> placement = kUseHint") (simp_all add: t1_def)
    qed
  qed
  then show ?thesis
    unfolding first_alloc_def retry_alloc_def opts_def
    by (intro exI [of _ r1] exI [of _ r2]) auto
qed



text \<open>
  Claim C5. Let \<^verbatim>\<open>ZX_VM_SPECIFIC\<close> be none of the four \<^verbatim>\<open>ZX_VM_CAN_MAP_*\<close> bits (in Zircon it
  is bit 4, they are bits 6 to 9). Then \<^verbatim>\<open>CreateAddressSpaceReservationInternal\<close>, and
  \<^verbatim>\<open>OS::CreateAddressSpaceReservation\<close> with it, gives the same result and the same history
  for any two values of \<^verbatim>\<open>max_permission\<close>, and every request it issues is a
  \<^verbatim>\<open>vmar.allocate\<close> of the given size whose options hold all of \<^verbatim>\<open>ZX_VM_CAN_MAP_READ\<close>,
  \<^verbatim>\<open>ZX_VM_CAN_MAP_WRITE\<close>, \<^verbatim>\<open>ZX_VM_CAN_MAP_EXECUTE\<close> and \<^verbatim>\<open>ZX_VM_CAN_MAP_SPECIFIC\<close>.
\<close>

theorem reservation_ignores_max_permission:
  assumes disjoint:
    "ZX_VM_SPECIFIC c AND (ZX_VM_CAN_MAP_READ c OR ZX_VM_CAN_MAP_WRITE c
        OR ZX_VM_CAN_MAP_EXECUTE c OR ZX_VM_CAN_MAP_SPECIFIC c) = 0"
  shows
   "CreateAddressSpaceReservationInternal c P k vmar vmar_base page_size address placement size'
        alignment max_permission t
      = CreateAddressSpaceReservationInternal c P k vmar vmar_base page_size address placement
          size' alignment max_permission' t
    \<and> OS_CreateAddressSpaceReservation c P k hint size' alignment max_permission t
      = OS_CreateAddressSpaceReservation c P k hint size' alignment max_permission' t
    \<and> (\<forall>req rep.
          (req, rep) \<in> set (issued t (snd (CreateAddressSpaceReservationInternal c P k vmar
                  vmar_base page_size address placement size' alignment max_permission t)))
          \<longrightarrow> (\<exists>options off.
                 req = vmar_allocate vmar options off size'
               \<and> options AND (ZX_VM_CAN_MAP_READ c OR ZX_VM_CAN_MAP_WRITE c
                                 OR ZX_VM_CAN_MAP_EXECUTE c OR ZX_VM_CAN_MAP_SPECIFIC c)
                   = ZX_VM_CAN_MAP_READ c OR ZX_VM_CAN_MAP_WRITE c
                       OR ZX_VM_CAN_MAP_EXECUTE c OR ZX_VM_CAN_MAP_SPECIFIC c))"
proof -
  define full where "full = ZX_VM_CAN_MAP_READ c OR ZX_VM_CAN_MAP_WRITE c
      OR ZX_VM_CAN_MAP_EXECUTE c OR ZX_VM_CAN_MAP_SPECIFIC c"
  have same: "CreateAddressSpaceReservationInternal c P k v b ps a pl sz al max_permission t
      = CreateAddressSpaceReservationInternal c P k v b ps a pl sz al max_permission' t"
    for v b ps a pl sz al
    unfolding CreateAddressSpaceReservationInternal_def by (rule refl)
  have os: "OS_CreateAddressSpaceReservation c P k hint size' alignment max_permission t
      = OS_CreateAddressSpaceReservation c P k hint size' alignment max_permission' t"
    unfolding OS_CreateAddressSpaceReservation_def same [of "root_self P"] by (rule refl)
  have bits: "\<exists>options off.
                 req = vmar_allocate vmar options off size' \<and> options AND full = full"
    if mem: "(req, rep) \<in> set (issued t (snd (CreateAddressSpaceReservationInternal c P k vmar
                  vmar_base page_size address placement size' alignment max_permission t)))"
    for req rep
  proof -
    let ?align = "GetAlignmentOptionFromAlignment c alignment"
    let ?s = "ZX_VM_SPECIFIC c"
    from CreateAddressSpaceReservationInternal_issued
      [of t c P k vmar vmar_base page_size address placement size' alignment max_permission]
    obtain r1 r2 where
      "issued t (snd (CreateAddressSpaceReservationInternal c P k vmar vmar_base page_size
          address placement size' alignment max_permission t))
       \<in> {[],
           [(vmar_allocate vmar
               (if placement = kAnywhere then full OR ?align else (full OR ?align) OR ?s)
               (if placement = kAnywhere then 0 else address - vmar_base) size', r1)],
           [(vmar_allocate vmar ((full OR ?align) OR ?s) (address - vmar_base) size', r1),
            (vmar_allocate vmar (((full OR ?align) OR ?s) AND NOT ?s) 0 size', r2)]}"
      unfolding full_def by blast
    with mem have
      "req = vmar_allocate vmar
               (if placement = kAnywhere then full OR ?align else (full OR ?align) OR ?s)
               (if placement = kAnywhere then 0 else address - vmar_base) size'
       \<or> req = vmar_allocate vmar ((full OR ?align) OR ?s) (address - vmar_base) size'
       \<or> req = vmar_allocate vmar (((full OR ?align) OR ?s) AND NOT ?s) 0 size'"
      by auto
    moreover have "(full OR ?align) AND full = full" by (rule or_keeps_bits)
    moreover have "((full OR ?align) OR ?s) AND full = full" by (rule or_or_keeps_bits)
    moreover have "(((full OR ?align) OR ?s) AND NOT ?s) AND full = full"
      by (rule retry_keeps_bits) (use disjoint in \<open>simp add: full_def\<close>)
    ultimately show ?thesis by (cases "placement = kAnywhere") auto
  qed
  show ?thesis
    using same os bits unfolding full_def by blast
qed


text \<open>
  With the Zircon constants the four bits are 960: asked for \<^verbatim>\<open>kReadWriteExecute\<close>, the
  hinted reservation on the refusing kernel runs as it does for \<^verbatim>\<open>kNoAccess\<close>, and its
  retry carries all four.
\<close>

theorem reservation_ignores_max_permission_witness:
  "ZX_VM_SPECIFIC zircon AND (ZX_VM_CAN_MAP_READ zircon OR ZX_VM_CAN_MAP_WRITE zircon
        OR ZX_VM_CAN_MAP_EXECUTE zircon OR ZX_VM_CAN_MAP_SPECIFIC zircon) = 0
   \<and> CreateAddressSpaceReservationInternal zircon (toy_process True)
         (toy_kernel refuse_specific 0) 1 0x10000 4096 0x20000 kUseHint 0x4000 4096
         kReadWriteExecute []
       = (Inr \<lparr>status = 0, out_handle = 7, out_addr = 0x10000, total_runtime = 0\<rparr>,
          [(vmar_allocate 1 201327568 0x10000 0x4000,
              \<lparr>status = - 4, out_handle = 0, out_addr = 0, total_runtime = 0\<rparr>),
           (vmar_allocate 1 201327552 0 0x4000,
              \<lparr>status = 0, out_handle = 7, out_addr = 0x10000, total_runtime = 0\<rparr>)])
   \<and> (\<exists>options off.
         vmar_allocate 1 201327552 0 0x4000 = vmar_allocate 1 options off 0x4000
         \<and> options AND 960 = 960)"
proof -
  have disjoint: "ZX_VM_SPECIFIC zircon AND (ZX_VM_CAN_MAP_READ zircon
        OR ZX_VM_CAN_MAP_WRITE zircon OR ZX_VM_CAN_MAP_EXECUTE zircon
        OR ZX_VM_CAN_MAP_SPECIFIC zircon) = 0"
    by (simp add: zircon_def)
  note th = reservation_ignores_max_permission [OF disjoint, where P = "toy_process True"
      and k = "toy_kernel refuse_specific 0" and vmar = 1 and vmar_base = "0x10000"
      and page_size = 4096 and address = "0x20000" and placement = kUseHint
      and size' = "0x4000" and alignment = 4096 and t = "[]"]
  have run: "CreateAddressSpaceReservationInternal zircon (toy_process True)
         (toy_kernel refuse_specific 0) 1 0x10000 4096 0x20000 kUseHint 0x4000 4096
         kReadWriteExecute []
       = (Inr \<lparr>status = 0, out_handle = 7, out_addr = 0x10000, total_runtime = 0\<rparr>,
          [(vmar_allocate 1 201327568 0x10000 0x4000,
              \<lparr>status = - 4, out_handle = 0, out_addr = 0, total_runtime = 0\<rparr>),
           (vmar_allocate 1 201327552 0 0x4000,
              \<lparr>status = 0, out_handle = 7, out_addr = 0x10000, total_runtime = 0\<rparr>)])"
    using th [where max_permission = kReadWriteExecute and max_permission' = kNoAccess,
        THEN conjunct1]
    by (simp only: toy_hint_refused_reserve)
  have mem: "(vmar_allocate 1 201327552 0 0x4000,
       \<lparr>status = 0, out_handle = 7, out_addr = 0x10000, total_runtime = 0\<rparr>)
     \<in> set (issued [] (snd (CreateAddressSpaceReservationInternal zircon (toy_process True)
         (toy_kernel refuse_specific 0) 1 0x10000 4096 0x20000 kUseHint 0x4000 4096
         kReadWriteExecute [])))"
    by (simp add: run issued_def)
  from th [where max_permission = kReadWriteExecute,
      THEN conjunct2, THEN conjunct2, rule_format, OF mem]
  have "\<exists>options off.
         vmar_allocate 1 201327552 0 0x4000 = vmar_allocate 1 options off 0x4000
         \<and> options AND 960 = 960"
    by (simp add: zircon_def)
  with disjoint run show ?thesis by blast
qed



section \<open>Thread CPU time\<close>

lemma GetUserTime_run:
  "GetUserTime c P k secs usecs t =
     (if status (k t (thread_get_info (thread_self P) (ZX_INFO_THREAD_STATS c))) \<noteq> ZX_OK c
      then (- 1, secs, usecs)
      else (0,
            ucast (((total_runtime (k t (thread_get_info (thread_self P)
                       (ZX_INFO_THREAD_STATS c))) + 1000 - 1) div 1000) div 1000000),
            ucast (((total_runtime (k t (thread_get_info (thread_self P)
                       (ZX_INFO_THREAD_STATS c))) + 1000 - 1) div 1000) mod 1000000)),
      t @ [(thread_get_info (thread_self P) (ZX_INFO_THREAD_STATS c),
            k t (thread_get_info (thread_self P) (ZX_INFO_THREAD_STATS c)))])"
  by (simp add: GetUserTime_def invoke_eq Let_def)

lemma unat_round_up:
  fixes x :: "64 word"
  shows "unat ((x + 1000 - 1) div 1000) = ((unat x + 999) mod 2 ^ 64) div 1000"
proof -
  have e: "x + 1000 - 1 = x + 999" by simp
  have "unat (x + 999) = (unat x + unat (999 :: 64 word)) mod 2 ^ LENGTH(64)"
    by (rule unat_word_ariths(1))
  then have "unat (x + 999) = (unat x + 999) mod 2 ^ 64" by simp
  then show ?thesis by (simp only: e unat_div) simp
qed

lemma unat_ucast_64_32:
  fixes w :: "64 word"
  shows "unat (ucast w :: 32 word) = unat w mod 2 ^ 32"
  by (simp add: unsigned_ucast_eq take_bit_eq_mod)


lemma toy_runtime_reply:
  "toy_kernel refuse_nothing n t (thread_get_info h topic)
     = \<lparr>status = 0, out_handle = 7, out_addr = 0, total_runtime = n\<rparr>"
  by (simp add: toy_kernel_def)


text \<open>
  Claim C8, as the code has it. Let \<open>n\<close> be the 64 bits of \<^verbatim>\<open>total_runtime\<close> read as an
  unsigned number. \<^verbatim>\<open>OS::GetUserTime\<close> computes \<open>micros\<close>, the sum \<open>n + 999\<close> reduced modulo
  \<open>2 ^ 64\<close> and divided by 1000: that is \<open>n\<close> nanoseconds rounded up to whole microseconds
  whenever \<open>n + 999 < 2 ^ 64\<close>, which holds for every non-negative value of a signed 64-bit
  counter. When the query succeeds it returns 0, the microseconds output is
  \<open>micros mod 1000000\<close>, and the seconds output is \<open>micros div 1000000\<close> reduced modulo
  \<open>2 ^ 32\<close>, the width of the output: the quotient itself whenever that is below \<open>2 ^ 32\<close>.
  When the query fails it returns -1.
\<close>

theorem user_time_rounds_up:
  "let info = k t (thread_get_info (thread_self P) (ZX_INFO_THREAD_STATS c));
       n = unat (total_runtime info);
       micros = ((n + 999) mod 2 ^ 64) div 1000
   in (n + 999 < 2 ^ 64 \<longrightarrow> micros = (n + 999) div 1000)
    \<and> (status info = ZX_OK c \<longrightarrow>
          (\<exists>s u. fst (GetUserTime c P k secs usecs t) = (0, s, u)
               \<and> unat u = micros mod 1000000
               \<and> unat s = (micros div 1000000) mod 2 ^ 32
               \<and> (micros div 1000000 < 2 ^ 32 \<longrightarrow> unat s = micros div 1000000)))
    \<and> (status info \<noteq> ZX_OK c \<longrightarrow> fst (fst (GetUserTime c P k secs usecs t)) = - 1)"
proof -
  define info where "info = k t (thread_get_info (thread_self P) (ZX_INFO_THREAD_STATS c))"
  define w where "w = (total_runtime info + 1000 - 1) div 1000"
  define n where "n = unat (total_runtime info)"
  define micros where "micros = ((n + 999) mod 2 ^ 64) div 1000"
  have m: "unat w = micros"
    unfolding w_def micros_def n_def by (rule unat_round_up)
  have exact: "micros = (n + 999) div 1000" if "n + 999 < 2 ^ 64"
    using that by (simp add: micros_def)
  have run: "fst (GetUserTime c P k secs usecs t) =
     (if status info \<noteq> ZX_OK c then (- 1, secs, usecs)
      else (0, ucast (w div 1000000), ucast (w mod 1000000)))"
    by (simp add: GetUserTime_run info_def w_def)
  have s: "unat (ucast (w div 1000000) :: 32 word) = (micros div 1000000) mod 2 ^ 32"
    by (simp only: unat_ucast_64_32 unat_div m) simp
  have "micros mod 1000000 < 2 ^ 32"
  proof -
    have "micros mod 1000000 < 1000000" by simp
    then show ?thesis by simp
  qed
  then have u: "unat (ucast (w mod 1000000) :: 32 word) = micros mod 1000000"
    by (simp only: unat_ucast_64_32 unat_mod m) simp
  have ok: "\<exists>s u. fst (GetUserTime c P k secs usecs t) = (0, s, u)
               \<and> unat u = micros mod 1000000
               \<and> unat s = (micros div 1000000) mod 2 ^ 32
               \<and> (micros div 1000000 < 2 ^ 32 \<longrightarrow> unat s = micros div 1000000)"
    if "status info = ZX_OK c"
  proof (rule exI [of _ "ucast (w div 1000000) :: 32 word"],
      rule exI [of _ "ucast (w mod 1000000) :: 32 word"], intro conjI)
    show "fst (GetUserTime c P k secs usecs t)
        = (0, ucast (w div 1000000), ucast (w mod 1000000))"
      using that by (simp add: run)
    show "unat (ucast (w mod 1000000) :: 32 word) = micros mod 1000000" by (rule u)
    show "unat (ucast (w div 1000000) :: 32 word) = (micros div 1000000) mod 2 ^ 32" by (rule s)
    show "micros div 1000000 < 2 ^ 32
        \<longrightarrow> unat (ucast (w div 1000000) :: 32 word) = micros div 1000000"
      by (simp only: s) simp
  qed
  have bad: "fst (fst (GetUserTime c P k secs usecs t)) = - 1" if "status info \<noteq> ZX_OK c"
    using that by (simp add: run)
  show ?thesis
    unfolding Let_def info_def [symmetric] n_def [symmetric] micros_def [symmetric]
    using exact ok bad by blast
qed


text \<open>
  A thread that has run for 2500000001 ns: 2500001 microseconds, so 2 seconds and 500001
  microseconds.
\<close>

theorem user_time_rounds_up_witness:
  "unat (2500000001 :: 64 word) + 999 < 2 ^ 64
   \<and> status (toy_kernel refuse_nothing 2500000001 []
        (thread_get_info (thread_self (toy_process True)) (ZX_INFO_THREAD_STATS zircon)))
       = ZX_OK zircon
   \<and> (2500000001 + 999) div 1000 = (2500001 :: nat)
   \<and> fst (GetUserTime zircon (toy_process True) (toy_kernel refuse_nothing 2500000001) 7 9 [])
       = (0, 2, 500001)"
proof -
  have fits: "unat (2500000001 :: 64 word) + 999 < 2 ^ 64"
    by simp
  have ok: "status (toy_kernel refuse_nothing 2500000001 []
           (thread_get_info (thread_self (toy_process True)) (ZX_INFO_THREAD_STATS zircon)))
      = ZX_OK zircon"
    by (simp add: toy_runtime_reply zircon_def)
  from user_time_rounds_up [where k = "toy_kernel refuse_nothing 2500000001" and t = "[]"
      and P = "toy_process True" and c = zircon and secs = 7 and usecs = 9] ok
  obtain s u where
    r: "fst (GetUserTime zircon (toy_process True) (toy_kernel refuse_nothing 2500000001) 7 9 [])
        = (0, s, u)"
    and u: "unat u = 500001"
    and s: "unat s = 2"
    by (auto simp: Let_def toy_runtime_reply)
  from u have "unat u = unat (500001 :: 32 word)" by simp
  then have u': "u = 500001" by (simp only: word_unat_eq_iff)
  from s have "unat s = unat (2 :: 32 word)" by simp
  then have s': "s = 2" by (simp only: word_unat_eq_iff)
  from fits ok r u' s' show ?thesis by simp
qed


text \<open>
  The seconds output is not the quotient for every counter value: at
  5000000000000000000 ns (a value a signed 64-bit counter can hold) the microsecond count
  is 5000000000000000, whose quotient by 1000000 is 5000000000, and
  \<^verbatim>\<open>static_cast<uint32_t>\<close> stores 705032704.
\<close>

theorem user_time_seconds_wrap:
  "fst (GetUserTime zircon (toy_process True)
          (toy_kernel refuse_nothing 5000000000000000000) 0 0 [])
     = (0, 705032704, 0)
   \<and> ((5000000000000000000 + 999) div 1000) div 1000000 = (5000000000 :: nat)
   \<and> unat (705032704 :: 32 word) \<noteq> 5000000000"
  by (simp add: GetUserTime_run toy_runtime_reply zircon_def)


text \<open>
  Claim C10. \<^verbatim>\<open>OS::GetUserTime\<close> returns -1 exactly when \<^verbatim>\<open>get_info\<close> does not answer
  \<^verbatim>\<open>ZX_OK\<close>, and when it returns -1 the two outputs hold what the caller passed in.
\<close>

theorem user_time_failure_leaves_outputs:
  "(fst (fst (GetUserTime c P k secs usecs t)) = - 1)
     = (status (k t (thread_get_info (thread_self P) (ZX_INFO_THREAD_STATS c))) \<noteq> ZX_OK c)
   \<and> (fst (fst (GetUserTime c P k secs usecs t)) = - 1
        \<longrightarrow> snd (fst (GetUserTime c P k secs usecs t)) = (secs, usecs))"
  by (simp add: GetUserTime_run)


text \<open>On a kernel that refuses the query, outputs holding 7 and 9 still hold 7 and 9.\<close>

theorem user_time_failure_leaves_outputs_witness:
  "GetUserTime zircon (toy_process True) (toy_kernel refuse_thread_info 0) 7 9 []
     = ((- 1, 7, 9),
        [(thread_get_info 2 11,
          \<lparr>status = - 4, out_handle = 0, out_addr = 0, total_runtime = 0\<rparr>)])"
proof -
  have run: "GetUserTime zircon (toy_process True) (toy_kernel refuse_thread_info 0) 7 9 []
     = ((fst (fst (GetUserTime zircon (toy_process True) (toy_kernel refuse_thread_info 0) 7 9 [])),
         snd (fst (GetUserTime zircon (toy_process True) (toy_kernel refuse_thread_info 0) 7 9 []))),
        [(thread_get_info 2 11,
          \<lparr>status = - 4, out_handle = 0, out_addr = 0, total_runtime = 0\<rparr>)])"
    by (simp add: GetUserTime_run toy_kernel_def zircon_def toy_process_def)
  have failed: "status (toy_kernel refuse_thread_info 0 []
      (thread_get_info (thread_self (toy_process True)) (ZX_INFO_THREAD_STATS zircon)))
      \<noteq> ZX_OK zircon"
    by (simp add: toy_kernel_def zircon_def)
  note th = user_time_failure_leaves_outputs [of zircon "toy_process True"
      "toy_kernel refuse_thread_info 0" 7 9 "[]"]
  from th failed have ret: "fst (fst (GetUserTime zircon (toy_process True)
      (toy_kernel refuse_thread_info 0) 7 9 [])) = - 1"
    by blast
  with th have out: "snd (fst (GetUserTime zircon (toy_process True)
      (toy_kernel refuse_thread_info 0) 7 9 [])) = (7, 9)"
    by blast
  show ?thesis by (subst run) (simp only: ret out)
qed


end
